theory Spec2Isabelle
  imports Complex_Main
begin

section \<open>JavaScript numbers\<close>

text \<open>
  A JavaScript \<^verbatim>\<open>number\<close> is an IEEE-754 double: a finite value, \<^verbatim>\<open>Infinity\<close>,
  \<^verbatim>\<open>-Infinity\<close> or \<^verbatim>\<open>NaN\<close>. A finite double is represented by its exact rational
  value. The two zeros are the one value \<open>Fin 0\<close>: the modelled code never divides by a
  variable, and \<^verbatim>\<open>toFixed\<close>, \<^verbatim>\<open>||\<close>, \<^verbatim>\<open><=\<close> and \<^verbatim>\<open>===\<close> treat both zeros alike.
  Every operation below yields a double when its arguments are doubles.
\<close>

datatype number = Fin rat | Infinity | NegInfinity | NaN

text \<open>\<open>2\<^sup>e\<close> for an integer \<open>e\<close>.\<close>

definition pow2 :: "int \<Rightarrow> rat" where
  "pow2 e = (if 0 \<le> e then 2 ^ nat e else 1 / 2 ^ nat (- e))"

text \<open>The number of binary digits of a positive integer.\<close>

function bit_length :: "int \<Rightarrow> int" where
  "bit_length n = (if n \<le> 0 then 0 else 1 + bit_length (n div 2))"
  by pat_completeness auto
termination
  by (relation "measure nat") auto

declare bit_length.simps [simp del]

text \<open>For \<open>a > 0\<close>, the integer \<open>e\<close> with \<open>2\<^sup>e \<le> a < 2\<^sup>e\<^sup>+\<^sup>1\<close>.\<close>

definition binary_exponent :: "rat \<Rightarrow> int" where
  "binary_exponent a =
     (if 1 \<le> a then bit_length \<lfloor>a\<rfloor> - 1
      else (let e = bit_length \<lfloor>1 / a\<rfloor> - 1 in if pow2 (- e) \<le> a then - e else - e - 1))"

text \<open>The nearest integer, the even one of two equally near.\<close>

definition round_half_even :: "rat \<Rightarrow> int" where
  "round_half_even q =
     (let f = \<lfloor>q\<rfloor>; r = q - of_int f
      in if r < 1 / 2 then f else if 1 / 2 < r then f + 1 else if even f then f else f + 1)"

text \<open>
  \<open>fl x\<close> is the double that the exact result \<open>x\<close> of an operation is rounded to
  (round to nearest, ties to even). With \<open>e\<close> the binary exponent of \<open>\<bar>x\<bar>\<close>, the spacing
  of the doubles around \<open>x\<close> is \<open>2\<^sup>p\<close> with \<open>p = e - 52\<close>, and \<open>p = -1074\<close> in the subnormal
  range; \<open>m\<close> is \<open>\<bar>x\<bar>\<close> in units of that spacing, rounded. A result of magnitude \<open>2\<^sup>1\<^sup>0\<^sup>2\<^sup>4\<close> or
  more is infinite. A decimal literal \<open>q\<close> of the source denotes \<open>fl q\<close>.
\<close>

definition fl_pack :: "rat \<Rightarrow> int \<Rightarrow> int \<Rightarrow> int \<Rightarrow> number" where
  "fl_pack x e p m =
     (if 1024 \<le> e \<or> (e = 1023 \<and> m = 2 ^ 53)
      then (if 0 < x then Infinity else NegInfinity)
      else Fin (if 0 < x then of_int m * pow2 p else - (of_int m * pow2 p)))"

definition fl_scaled :: "rat \<Rightarrow> int \<Rightarrow> int \<Rightarrow> number" where
  "fl_scaled x e p = fl_pack x e p (round_half_even (\<bar>x\<bar> / pow2 p))"

definition fl :: "rat \<Rightarrow> number" where
  "fl x =
     (if x = 0 then Fin 0
      else fl_scaled x (binary_exponent \<bar>x\<bar>) (max (binary_exponent \<bar>x\<bar> - 52) (- 1074)))"

text \<open>\<open>-1\<close>, \<open>0\<close> or \<open>1\<close>; \<open>0\<close> for \<^verbatim>\<open>NaN\<close>.\<close>

definition js_sign :: "number \<Rightarrow> int" where
  "js_sign x =
     (case x of
        Fin a \<Rightarrow> (if a < 0 then - 1 else if a = 0 then 0 else 1)
      | Infinity \<Rightarrow> 1
      | NegInfinity \<Rightarrow> - 1
      | NaN \<Rightarrow> 0)"

text \<open>\<^verbatim>\<open>x + y\<close>.\<close>

definition js_add :: "number \<Rightarrow> number \<Rightarrow> number" where
  "js_add x y =
     (case (x, y) of
        (Fin a, Fin b) \<Rightarrow> fl (a + b)
      | (NaN, _) \<Rightarrow> NaN
      | (_, NaN) \<Rightarrow> NaN
      | (Infinity, NegInfinity) \<Rightarrow> NaN
      | (NegInfinity, Infinity) \<Rightarrow> NaN
      | (Infinity, _) \<Rightarrow> Infinity
      | (NegInfinity, _) \<Rightarrow> NegInfinity
      | (_, Infinity) \<Rightarrow> Infinity
      | (_, NegInfinity) \<Rightarrow> NegInfinity)"

text \<open>\<^verbatim>\<open>x * y\<close>: with an infinite or \<^verbatim>\<open>NaN\<close> operand the result is \<^verbatim>\<open>NaN\<close> when an
  operand is \<^verbatim>\<open>NaN\<close> or zero, and the infinity of the product's sign otherwise.\<close>

definition js_mul :: "number \<Rightarrow> number \<Rightarrow> number" where
  "js_mul x y =
     (case (x, y) of
        (Fin a, Fin b) \<Rightarrow> fl (a * b)
      | _ \<Rightarrow> (if js_sign x * js_sign y = 0 then NaN
              else if 0 < js_sign x * js_sign y then Infinity else NegInfinity))"

text \<open>\<^verbatim>\<open>x / d\<close> for a positive finite literal \<open>d\<close> (the code divides by \<open>100\<close> only).\<close>

definition js_div :: "number \<Rightarrow> rat \<Rightarrow> number" where
  "js_div x d = (case x of Fin a \<Rightarrow> fl (a / d) | _ \<Rightarrow> x)"

text \<open>\<^verbatim>\<open>Math.round(x)\<close>: the nearest integer, the larger one of two equally near.\<close>

definition Math_round :: "number \<Rightarrow> number" where
  "Math_round x = (case x of Fin a \<Rightarrow> Fin (of_int \<lfloor>a + 1 / 2\<rfloor>) | _ \<Rightarrow> x)"

text \<open>\<^verbatim>\<open>Math.round(x * 100) / 100\<close>.\<close>

definition round100 :: "number \<Rightarrow> number" where
  "round100 x = js_div (Math_round (js_mul x (Fin 100))) 100"

text \<open>\<^verbatim>\<open>x <= 0\<close>.\<close>

definition js_le_zero :: "number \<Rightarrow> bool" where
  "js_le_zero x = (case x of Fin a \<Rightarrow> a \<le> 0 | NegInfinity \<Rightarrow> True | _ \<Rightarrow> False)"

section \<open>Data model (src/frontend/src/types/api.ts)\<close>

text \<open>
  The interfaces of \<^verbatim>\<open>types/api.ts\<close> become records. Field names are those of the
  source; where two interfaces share a field name the field carries a short prefix
  (\<open>p_\<close> for \<^verbatim>\<open>Product\<close>, \<open>item_id\<close> for \<^verbatim>\<open>InvoiceItem.id\<close>, \<open>inv_id\<close> for
  \<^verbatim>\<open>Invoice.id\<close>, \<open>s_\<close> for \<^verbatim>\<open>Settings\<close>, \<open>vr_\<close> for \<^verbatim>\<open>ValidationResult\<close>,
  \<open>cv_\<close> for \<^verbatim>\<open>ChainVerification\<close>); the line states \<^verbatim>\<open>'none'\<close> and
  \<^verbatim>\<open>'returned'\<close> are \<open>rs_none\<close> and \<open>rs_returned\<close>. An optional field \<^verbatim>\<open>f?: T\<close> is a \<open>T option\<close>, \<open>None\<close> when
  the object literal does not set it.

  A JavaScript \<^verbatim>\<open>number\<close> that the code only counts with (ids, the invoice counter,
  clock readings in milliseconds) is a \<open>nat\<close>. Prices, rates, quantities and amounts are
  of type \<open>number\<close>, computed with the double operations above. Strings are byte
  lists.
\<close>

datatype ProductStatus = active | inactive

record Product =
  p_id :: string
  p_name :: string
  p_description :: string
  p_price :: number
  p_vat_rate :: number
  p_barcode :: "string option"
  p_stock :: number
  p_status :: ProductStatus
  p_created_at :: "string option"

datatype ReturnStatus = rs_none | rs_returned

record InvoiceItem =
  item_id :: "nat option"
  invoice_id :: "nat option"
  product_id :: string
  product_name :: string
  quantity :: number
  unit_price :: number
  vat_rate :: number
  line_total :: number
  return_status :: ReturnStatus

datatype InvoiceStatus = completed | returned | partial_return

record Invoice =
  inv_id :: nat
  invoice_number :: string
  seller_id :: string
  store_name :: string
  subtotal :: number
  vat_amount :: number
  total :: number
  payment_method :: string
  customer_email :: "string option"
  previous_hash :: "string option"
  current_hash :: string
  qr_data :: string
  qr_image :: "string option"
  status :: InvoiceStatus
  created_at :: string
  items :: "InvoiceItem list"
  currency_symbol :: "string option"

record Settings =
  language :: string
  s_store_name :: string
  s_seller_id :: string
  printer_enabled :: bool
  smtp_host :: string
  smtp_port :: nat
  smtp_username :: string
  smtp_password :: string
  smtp_use_tls :: bool
  keyboard_layout :: string
  s_currency_symbol :: string
  default_vat_rate :: number

record Checks =
  format_valid :: "bool option"
  invoice_exists :: "bool option"
  hash_matches :: "bool option"
  total_matches :: "bool option"
  hash_verified :: "bool option"

record ValidationResult =
  vr_valid :: bool
  vr_invoice_number :: "string option"
  vr_error_message :: "string option"
  invoice_data :: "Invoice option"
  checks :: "Checks option"

record ChainVerification =
  cv_valid :: bool
  checked_count :: nat
  cv_error_message :: "string option"
  failed_invoice_id :: "nat option"

record ReturnResult =
  rr_invoice_number :: string
  refund_amount :: number
  new_status :: InvoiceStatus

text \<open>\<^verbatim>\<open>ApiResponse<T>\<close>: \<^verbatim>\<open>{ success: boolean; data?: T; error?: string }\<close>.\<close>

record 'a ApiResponse =
  success :: bool
  data :: "'a option"
  error :: "string option"

text \<open>\<^verbatim>\<open>CartItem\<close>: \<^verbatim>\<open>{ product: Product; quantity: number }\<close>.\<close>

record CartItem =
  product :: Product
  cart_quantity :: number

section \<open>JavaScript built-ins used by the code\<close>

definition digit_char :: "nat \<Rightarrow> char" where
  "digit_char d = ''0123456789abcdef'' ! d"

text \<open>\<^verbatim>\<open>n.toString(radix)\<close> of a non-negative integer; \<^verbatim>\<open>String(n)\<close> is radix 10.
  The code uses the radixes 10 and 16 only; the test \<open>radix < 2\<close> is there for the
  recursion to end on every argument.\<close>

function number_toString :: "nat \<Rightarrow> nat \<Rightarrow> string" where
  "number_toString radix n =
     (if n < radix \<or> radix < 2 then [digit_char n]
      else number_toString radix (n div radix) @ [digit_char (n mod radix)])"
  by pat_completeness auto
termination
  by (relation "measure (\<lambda>(radix, n). n)") auto

declare number_toString.simps [simp del]

text \<open>\<^verbatim>\<open>s.padStart(len, '0')\<close>.\<close>

definition padStart0 :: "nat \<Rightarrow> string \<Rightarrow> string" where
  "padStart0 len s = replicate (len - length s) (CHR ''0'') @ s"

text \<open>The number of decimal digits of a positive integer.\<close>

function decimal_length :: "int \<Rightarrow> nat" where
  "decimal_length n = (if n \<le> 0 then 0 else Suc (decimal_length (n div 10)))"
  by pat_completeness auto
termination
  by (relation "measure nat") auto

declare decimal_length.simps [simp del]

text \<open>
  \<^verbatim>\<open>String(x)\<close> for a finite double \<open>x \<ge> 10\<^sup>2\<^sup>1\<close>, which is a whole number of \<open>len\<close> decimal
  digits: the fewest digits \<open>k\<close> such that an integer \<open>s\<close> of \<open>k\<close> digits, scaled by a
  power of ten, is a decimal that reads back as \<open>x\<close>; among such \<open>s\<close> the one nearest to
  \<open>x\<close>. The result is the first digit of \<open>s\<close>, a point and the other digits if there are
  any, then \<^verbatim>\<open>e+\<close> and the decimal exponent. At most 17 digits are ever needed.
  Where the power of ten just above \<open>x\<close> reads back as \<open>x\<close>, the digits are the single
  \<open>1\<close> with the exponent one higher.
\<close>

definition reads_back :: "rat \<Rightarrow> nat \<Rightarrow> nat \<Rightarrow> bool" where
  "reads_back x len k =
     (round_half_even (x / 10 ^ (len - k)) < 10 ^ k
      \<and> fl (of_int (round_half_even (x / 10 ^ (len - k))) * 10 ^ (len - k)) = Fin x)"

fun fewest_digits :: "rat \<Rightarrow> nat \<Rightarrow> nat \<Rightarrow> nat \<Rightarrow> nat" where
  "fewest_digits x len k 0 = k"
| "fewest_digits x len k (Suc n) =
     (if reads_back x len k then k else fewest_digits x len (Suc k) n)"

definition exponent_form :: "nat \<Rightarrow> nat \<Rightarrow> string" where
  "exponent_form s e =
     (case number_toString 10 s of
        [] \<Rightarrow> []
      | c # cs \<Rightarrow> (if cs = [] then [c] else c # ''.'' @ cs) @ ''e+'' @ number_toString 10 e)"

definition toString_large :: "rat \<Rightarrow> string" where
  "toString_large x =
     (if fl (10 ^ decimal_length \<lfloor>x\<rfloor>) = Fin x
      then exponent_form 1 (decimal_length \<lfloor>x\<rfloor>)
      else exponent_form
             (nat (round_half_even
                (x / 10 ^ (decimal_length \<lfloor>x\<rfloor>
                            - fewest_digits x (decimal_length \<lfloor>x\<rfloor>) 1 16))))
             (decimal_length \<lfloor>x\<rfloor> - 1))"

text \<open>\<^verbatim>\<open>x.toFixed(2)\<close>. For a finite \<open>x\<close> below \<open>10\<^sup>2\<^sup>1\<close> in magnitude: the sign, then the
  integer \<open>n\<close> nearest to \<open>\<bar>x\<bar> * 100\<close> (the larger one on a tie) written with a point before
  its last two digits. From \<open>10\<^sup>2\<^sup>1\<close> on: the sign and \<^verbatim>\<open>String\<close> of the magnitude.\<close>

definition toFixed2 :: "number \<Rightarrow> string" where
  "toFixed2 x =
     (case x of
        NaN \<Rightarrow> ''NaN''
      | Infinity \<Rightarrow> ''Infinity''
      | NegInfinity \<Rightarrow> ''-Infinity''
      | Fin a \<Rightarrow>
          (if a < 0 then ''-'' else [])
          @ (if 10 ^ 21 \<le> \<bar>a\<bar> then toString_large \<bar>a\<bar>
             else number_toString 10 (nat \<lfloor>\<bar>a\<bar> * 100 + 1 / 2\<rfloor> div 100) @ ''.''
                  @ padStart0 2 (number_toString 10 (nat \<lfloor>\<bar>a\<bar> * 100 + 1 / 2\<rfloor> mod 100))))"

text \<open>\<^verbatim>\<open>s.split('|')\<close>: the empty string gives one empty field.\<close>

fun split_pipe :: "string \<Rightarrow> string list" where
  "split_pipe [] = [[]]"
| "split_pipe (c # cs) =
     (if c = CHR ''|'' then [] # split_pipe cs
      else (case split_pipe cs of
              [] \<Rightarrow> [[c]]
            | f # fs \<Rightarrow> (c # f) # fs))"

declare split_pipe.simps [simp del]

section \<open>The mock API (src/frontend/src/api/mock.ts)\<close>

subsection \<open>Module state\<close>

text \<open>
  The module-level bindings \<^verbatim>\<open>sampleProducts\<close>, \<^verbatim>\<open>sampleInvoices\<close>, \<^verbatim>\<open>mockSettings\<close>
  and \<^verbatim>\<open>invoiceCounter\<close> are the state every API function reads and writes. Each API
  function awaits \<^verbatim>\<open>delay\<close> once and then runs to completion, so it is one atomic
  step on this state.
\<close>

record mock_state =
  sampleProducts :: "Product list"
  sampleInvoices :: "Invoice list"
  mockSettings :: Settings
  invoiceCounter :: nat

text \<open>The sample products all have VAT rate 21; their prices and stocks (2.5, 3.5, 4.0,
  2.0, 5.5; 100, 50, 30, 20) are doubles exactly.\<close>

definition mk_product :: "string \<Rightarrow> string \<Rightarrow> string \<Rightarrow> rat \<Rightarrow> string \<Rightarrow> rat \<Rightarrow> Product" where
  "mk_product i n d pr bc st =
     \<lparr>p_id = i, p_name = n, p_description = d, p_price = Fin pr, p_vat_rate = Fin 21,
      p_barcode = Some bc, p_stock = Fin st, p_status = active, p_created_at = None\<rparr>"

definition init_sampleProducts :: "Product list" where
  "init_sampleProducts =
     [mk_product ''PROD001'' ''Espresso'' ''Single shot espresso'' (5 / 2) ''1234567890123'' 100,
      mk_product ''PROD002'' ''Cappuccino'' ''Espresso with steamed milk foam'' (7 / 2) ''1234567890124'' 100,
      mk_product ''PROD003'' ''Latte'' ''Espresso with steamed milk'' 4 ''1234567890125'' 100,
      mk_product ''PROD004'' ''Croissant'' ''Fresh butter croissant'' 2 ''1234567890126'' 50,
      mk_product ''PROD005'' ''Muffin'' ''Chocolate chip muffin'' (5 / 2) ''1234567890127'' 30,
      mk_product ''PROD006'' ''Sandwich'' ''Ham and cheese sandwich'' (11 / 2) ''1234567890128'' 20]"

definition init_sampleInvoices :: "Invoice list" where
  "init_sampleInvoices =
     [\<lparr>inv_id = 1, invoice_number = ''INV-2024-0001'', seller_id = ''SELLER001'',
       store_name = ''Demo Store'', subtotal = Fin 10, vat_amount = fl (21 / 10),
       total = fl (121 / 10),
       payment_method = ''cash'', customer_email = None, previous_hash = None,
       current_hash = ''a1b2c3d4e5f6g7h8'',
       qr_data = ''OPENINVOICE|v1|INV-2024-0001|12.10|a1b2c3d4|1706745600'',
       qr_image = None, status = completed, created_at = ''2024-01-31T10:30:00'',
       items =
         [\<lparr>item_id = Some 1, invoice_id = Some 1, product_id = ''PROD001'',
           product_name = ''Espresso'', quantity = Fin 2, unit_price = Fin (5 / 2),
           vat_rate = Fin 21, line_total = Fin 5, return_status = rs_none\<rparr>,
          \<lparr>item_id = Some 2, invoice_id = Some 1, product_id = ''PROD004'',
           product_name = ''Croissant'', quantity = Fin 2, unit_price = Fin 2,
           vat_rate = Fin 21, line_total = Fin 4, return_status = rs_none\<rparr>],
       currency_symbol = None\<rparr>]"

text \<open>The currency symbol is the byte sequence of the source file's literal.\<close>

definition init_mockSettings :: Settings where
  "init_mockSettings =
     \<lparr>language = ''en'', s_store_name = ''Demo Store'', s_seller_id = ''SELLER001'',
      printer_enabled = False, smtp_host = '''', smtp_port = 587, smtp_username = '''',
      smtp_password = '''', smtp_use_tls = True, keyboard_layout = ''qwerty'',
      s_currency_symbol = [CHR 0xC3, CHR 0xA2, CHR 0xE2, CHR 0x80, CHR 0x9A, CHR 0xC2, CHR 0xAC],
      default_vat_rate = Fin 21\<rparr>"

definition mockQrImage :: string where
  "mockQrImage =
     ''iVBORw0KGgoAAAANSUhEUgAAAAEAAAABCAYAAAAfFcSJAAAADUlEQVR42mNk+M9QDwADhgGAWjR9awAAAABJRU5ErkJggg==''"

text \<open>The state when the module has just been loaded:
  \<^verbatim>\<open>let invoiceCounter = sampleInvoices.length\<close>.\<close>

definition init_state :: mock_state where
  "init_state =
     \<lparr>sampleProducts = init_sampleProducts, sampleInvoices = init_sampleInvoices,
      mockSettings = init_mockSettings, invoiceCounter = length init_sampleInvoices\<rparr>"

subsection \<open>\<^verbatim>\<open>hash_chain_verify\<close>\<close>

definition hash_chain_verify :: "mock_state \<Rightarrow> ChainVerification ApiResponse" where
  "hash_chain_verify s =
     \<lparr>success = True,
      data = Some \<lparr>cv_valid = True, checked_count = length (sampleInvoices s),
                   cv_error_message = None, failed_invoice_id = None\<rparr>,
      error = None\<rparr>"

subsection \<open>\<^verbatim>\<open>products_create\<close>\<close>

text \<open>\<^verbatim>\<open>Partial<Product>\<close>: every field of \<^verbatim>\<open>Product\<close> optional. \<^verbatim>\<open>a || b\<close> takes
  \<open>b\<close> when \<open>a\<close> is missing, the empty string, zero or \<^verbatim>\<open>NaN\<close>.\<close>

record PartialProduct =
  pp_id :: "string option"
  pp_name :: "string option"
  pp_description :: "string option"
  pp_price :: "number option"
  pp_vat_rate :: "number option"
  pp_barcode :: "string option"
  pp_stock :: "number option"
  pp_status :: "ProductStatus option"
  pp_created_at :: "string option"

definition or_string :: "string option \<Rightarrow> string \<Rightarrow> string" where
  "or_string a b = (case a of None \<Rightarrow> b | Some v \<Rightarrow> if v = [] then b else v)"

definition or_number :: "number option \<Rightarrow> number \<Rightarrow> number" where
  "or_number a b =
     (case a of None \<Rightarrow> b | Some v \<Rightarrow> if v = Fin 0 \<or> v = NaN then b else v)"

definition products_create :: "PartialProduct \<Rightarrow> mock_state \<Rightarrow> mock_state \<times> Product ApiResponse" where
  "products_create d s =
     (let newProduct =
            \<lparr>p_id = or_string (pp_id d)
                      (''PROD'' @ padStart0 3 (number_toString 10 (length (sampleProducts s) + 1))),
             p_name = or_string (pp_name d) ''New Product'',
             p_description = or_string (pp_description d) [],
             p_price = or_number (pp_price d) (Fin 0),
             p_vat_rate = or_number (pp_vat_rate d) (Fin 21),
             p_barcode = (case pp_barcode d of None \<Rightarrow> None
                          | Some b \<Rightarrow> if b = [] then None else Some b),
             p_stock = or_number (pp_stock d) (Fin 0),
             p_status = active,
             p_created_at = None\<rparr>
      in (s\<lparr>sampleProducts := sampleProducts s @ [newProduct]\<rparr>,
          \<lparr>success = True, data = Some newProduct, error = None\<rparr>))"

subsection \<open>\<^verbatim>\<open>invoices_create\<close>\<close>

text \<open>
  The function reads the clock three times: \<^verbatim>\<open>new Date().toISOString()\<close> for
  \<^verbatim>\<open>created_at\<close>, \<^verbatim>\<open>Date.now()\<close> for the hash and \<^verbatim>\<open>Date.now()\<close> again inside
  \<^verbatim>\<open>qr_data\<close>. The three readings are inputs of the model.
\<close>

record clock =
  date_iso :: string
  now_hash :: nat
  now_qr :: nat

text \<open>The \<^verbatim>\<open>for (const item of items)\<close> loop, with its early return when a product is
  not found. Each requested item is a pair \<open>(product_id, quantity)\<close>.\<close>

fun create_loop ::
  "Product list \<Rightarrow> nat \<Rightarrow> (string \<times> number) list \<Rightarrow> number \<Rightarrow> number
     \<Rightarrow> InvoiceItem list \<Rightarrow> string + (number \<times> number \<times> InvoiceItem list)" where
  "create_loop ps cnt [] sub vatTotal invoiceItems = Inr (sub, vatTotal, invoiceItems)"
| "create_loop ps cnt ((pid, qty) # rest) sub vatTotal invoiceItems =
     (case find (\<lambda>p. p_id p = pid) ps of
        None \<Rightarrow> Inl (''Product '' @ pid @ '' not found'')
      | Some prd \<Rightarrow>
          (let lineTotal = js_mul (p_price prd) qty;
               vatAmount = js_mul lineTotal (js_div (p_vat_rate prd) 100)
           in create_loop ps cnt rest (js_add sub lineTotal) (js_add vatTotal vatAmount)
                (invoiceItems @
                 [\<lparr>item_id = Some (length invoiceItems + 1), invoice_id = Some cnt,
                   product_id = p_id prd, product_name = p_name prd, quantity = qty,
                   unit_price = p_price prd, vat_rate = p_vat_rate prd,
                   line_total = lineTotal, return_status = rs_none\<rparr>])))"

definition invoices_create ::
  "clock \<Rightarrow> (string \<times> number) list \<Rightarrow> string \<Rightarrow> string option \<Rightarrow> mock_state
     \<Rightarrow> mock_state \<times> Invoice ApiResponse" where
  "invoices_create clk its paymentMethod customerEmail s =
     (let cnt = invoiceCounter s + 1;
          s1 = s\<lparr>invoiceCounter := cnt\<rparr>;
          invoiceNumber = ''INV-2024-'' @ padStart0 4 (number_toString 10 cnt)
      in case create_loop (sampleProducts s) cnt its (Fin 0) (Fin 0) [] of
           Inl e \<Rightarrow> (s1, \<lparr>success = False, data = None, error = Some e\<rparr>)
         | Inr (sub, vatTotal, invoiceItems) \<Rightarrow>
             (let tot = js_add sub vatTotal;
                  timestamp = date_iso clk;
                  hash = ''mock'' @ number_toString 16 (now_hash clk);
                  invoice =
                    \<lparr>inv_id = cnt, invoice_number = invoiceNumber,
                     seller_id = s_seller_id (mockSettings s),
                     store_name = s_store_name (mockSettings s),
                     subtotal = round100 sub, vat_amount = round100 vatTotal,
                     total = round100 tot, payment_method = paymentMethod,
                     customer_email = customerEmail, previous_hash = None,
                     current_hash = hash,
                     qr_data = ''OPENINVOICE|v1|'' @ invoiceNumber @ ''|'' @ toFixed2 tot @ ''|''
                               @ take 8 hash @ ''|'' @ number_toString 10 (now_qr clk div 1000),
                     qr_image = Some mockQrImage, status = completed,
                     created_at = timestamp, items = invoiceItems,
                     currency_symbol = Some (s_currency_symbol (mockSettings s))\<rparr>
              in (s1\<lparr>sampleInvoices := sampleInvoices s @ [invoice]\<rparr>,
                  \<lparr>success = True, data = Some invoice, error = None\<rparr>)))"

subsection \<open>\<^verbatim>\<open>invoices_process_return\<close>\<close>

text \<open>\<^verbatim>\<open>itemIds.includes(item.id!)\<close>: a line without id matches no requested id.\<close>

definition includes_id :: "nat list \<Rightarrow> nat option \<Rightarrow> bool" where
  "includes_id itemIds i = (case i of None \<Rightarrow> False | Some n \<Rightarrow> n \<in> set itemIds)"

text \<open>The loop over \<^verbatim>\<open>invoice.items\<close>: it marks every requested line and adds its
  \<^verbatim>\<open>line_total\<close> to \<^verbatim>\<open>refundAmount\<close>. The result is the lines after the loop and the
  final \<^verbatim>\<open>refundAmount\<close>.\<close>

fun return_loop ::
  "nat list \<Rightarrow> InvoiceItem list \<Rightarrow> number \<Rightarrow> InvoiceItem list \<times> number" where
  "return_loop itemIds [] refundAmount = ([], refundAmount)"
| "return_loop itemIds (item # rest) refundAmount =
     (if includes_id itemIds (item_id item)
      then (case return_loop itemIds rest (js_add refundAmount (line_total item)) of
              (rest', r) \<Rightarrow> (item\<lparr>return_status := rs_returned\<rparr> # rest', r))
      else (case return_loop itemIds rest refundAmount of
              (rest', r) \<Rightarrow> (item # rest', r)))"

text \<open>\<^verbatim>\<open>find\<close> returns the first matching invoice object and the code mutates that
  object in place: in the list, the first matching element is replaced.\<close>

fun update_found :: "('a \<Rightarrow> bool) \<Rightarrow> 'a \<Rightarrow> 'a list \<Rightarrow> 'a list" where
  "update_found P y [] = []"
| "update_found P y (x # xs) = (if P x then y # xs else x # update_found P y xs)"

definition invoices_process_return ::
  "string \<Rightarrow> nat list \<Rightarrow> mock_state \<Rightarrow> mock_state \<times> ReturnResult ApiResponse" where
  "invoices_process_return invoiceNumber itemIds s =
     (case find (\<lambda>i. invoice_number i = invoiceNumber) (sampleInvoices s) of
        None \<Rightarrow> (s, \<lparr>success = False, data = None, error = Some ''Invoice not found''\<rparr>)
      | Some invoice \<Rightarrow>
          (case return_loop itemIds (items invoice) (Fin 0) of
             (items', refundAmount) \<Rightarrow>
               (let allReturned = list_all (\<lambda>i. return_status i = rs_returned) items';
                    st = (if allReturned then returned else partial_return);
                    invoice' = invoice\<lparr>items := items', status := st\<rparr>
                in (s\<lparr>sampleInvoices :=
                        update_found (\<lambda>i. invoice_number i = invoiceNumber) invoice'
                          (sampleInvoices s)\<rparr>,
                    \<lparr>success = True,
                     data = Some \<lparr>rr_invoice_number = invoiceNumber,
                                  refund_amount = refundAmount, new_status = st\<rparr>,
                     error = None\<rparr>))))"

subsection \<open>\<^verbatim>\<open>qr_validate\<close>\<close>

definition qr_validate :: "string \<Rightarrow> mock_state \<Rightarrow> ValidationResult ApiResponse" where
  "qr_validate qrData s =
     (let parts = split_pipe qrData
      in if length parts \<noteq> 6 \<or> parts ! 0 \<noteq> ''OPENINVOICE''
         then \<lparr>success = False,
               data = Some \<lparr>vr_valid = False, vr_invoice_number = None,
                            vr_error_message = Some ''Invalid QR code format'',
                            invoice_data = None, checks = None\<rparr>,
               error = None\<rparr>
         else (let invoiceNumber = parts ! 2
               in case find (\<lambda>i. invoice_number i = invoiceNumber) (sampleInvoices s) of
                    None \<Rightarrow>
                      \<lparr>success = False,
                       data = Some \<lparr>vr_valid = False, vr_invoice_number = Some invoiceNumber,
                                    vr_error_message = Some ''Invoice not found'',
                                    invoice_data = None, checks = None\<rparr>,
                       error = None\<rparr>
                  | Some invoice \<Rightarrow>
                      \<lparr>success = True,
                       data = Some \<lparr>vr_valid = True, vr_invoice_number = Some invoiceNumber,
                                    vr_error_message = None,
                                    invoice_data = Some (invoice\<lparr>qr_image := Some mockQrImage\<rparr>),
                                    checks = Some \<lparr>format_valid = Some True,
                                                   invoice_exists = Some True,
                                                   hash_matches = Some True,
                                                   total_matches = Some True,
                                                   hash_verified = Some True\<rparr>\<rparr>,
                       error = None\<rparr>))"

section \<open>The cart store (src/frontend/src/stores/cartStore.ts)\<close>

text \<open>The store's state is the list \<^verbatim>\<open>items\<close>; every action maps the old list to the
  new one. \<^verbatim>\<open>findIndex\<close> gives the first index whose entry satisfies the predicate,
  \<open>None\<close> standing for \<open>-1\<close>.\<close>

fun findIndex :: "('a \<Rightarrow> bool) \<Rightarrow> 'a list \<Rightarrow> nat option" where
  "findIndex P [] = None"
| "findIndex P (x # xs) =
     (if P x then Some 0 else map_option Suc (findIndex P xs))"

text \<open>\<^verbatim>\<open>addItem(product, quantity = 1)\<close>: a missing quantity is \<open>1\<close>.\<close>

definition addItem :: "Product \<Rightarrow> number option \<Rightarrow> CartItem list \<Rightarrow> CartItem list" where
  "addItem prd quantity_opt its =
     (let qty = (case quantity_opt of None \<Rightarrow> Fin 1 | Some q \<Rightarrow> q)
      in case findIndex (\<lambda>item. p_id (product item) = p_id prd) its of
           Some existingIndex \<Rightarrow>
             its[existingIndex :=
                   (its ! existingIndex)\<lparr>cart_quantity :=
                      js_add (cart_quantity (its ! existingIndex)) qty\<rparr>]
         | None \<Rightarrow> its @ [\<lparr>product = prd, cart_quantity = qty\<rparr>])"

definition removeItem :: "string \<Rightarrow> CartItem list \<Rightarrow> CartItem list" where
  "removeItem productId its = filter (\<lambda>item. p_id (product item) \<noteq> productId) its"

definition updateQuantity :: "string \<Rightarrow> number \<Rightarrow> CartItem list \<Rightarrow> CartItem list" where
  "updateQuantity productId qty its =
     (if js_le_zero qty then removeItem productId its
      else map (\<lambda>item. if p_id (product item) = productId
                        then item\<lparr>cart_quantity := qty\<rparr> else item) its)"

definition clearCart :: "CartItem list \<Rightarrow> CartItem list" where
  "clearCart its = []"

text \<open>The cart states the store can be in: the initial empty list and whatever the four
  actions make of a reachable state.\<close>

inductive cart_reachable :: "CartItem list \<Rightarrow> bool" where
  cart_init: "cart_reachable []"
| cart_add: "cart_reachable its \<Longrightarrow> cart_reachable (addItem prd q its)"
| cart_remove: "cart_reachable its \<Longrightarrow> cart_reachable (removeItem pid its)"
| cart_update: "cart_reachable its \<Longrightarrow> cart_reachable (updateQuantity pid qty its)"
| cart_clear: "cart_reachable its \<Longrightarrow> cart_reachable (clearCart its)"

section \<open>Example inputs\<close>

text \<open>Clock readings of two runs that differ only in the reading taken for the hash.\<close>

definition ex_clock :: clock where
  "ex_clock = \<lparr>date_iso = ''2024-02-01T09:00:00.000Z'', now_hash = 1706778000000,
                now_qr = 1706778000250\<rparr>"

definition ex_clock_later :: clock where
  "ex_clock_later = \<lparr>date_iso = ''2024-02-01T09:00:00.000Z'', now_hash = 1706778000001,
                      now_qr = 1706778000250\<rparr>"

text \<open>A store without invoices, and the cart line of the spec's scenario: two Espresso.\<close>

definition empty_store :: mock_state where
  "empty_store = init_state\<lparr>sampleInvoices := [], invoiceCounter := 0\<rparr>"

definition two_espresso :: "(string \<times> number) list" where
  "two_espresso = [(''PROD001'', Fin 2)]"

text \<open>Three Espresso.\<close>

definition three_espresso :: "(string \<times> number) list" where
  "three_espresso = [(''PROD001'', Fin 3)]"

text \<open>The store after one sale on the freshly loaded module, and the same store with the
  total of the new record overwritten.\<close>

definition store_after_sale :: mock_state where
  "store_after_sale = fst (invoices_create ex_clock two_espresso ''cash'' None init_state)"

definition tampered_store :: mock_state where
  "tampered_store =
     store_after_sale\<lparr>sampleInvoices :=
       (sampleInvoices store_after_sale)
         [1 := (sampleInvoices store_after_sale ! 1)\<lparr>total := Fin 999\<rparr>]\<rparr>"

text \<open>The store after line 1 of the sample invoice has been returned once.\<close>

definition store_after_return :: mock_state where
  "store_after_return = fst (invoices_process_return ''INV-2024-0001'' [1] init_state)"

text \<open>A product priced at an eighth, added through \<^verbatim>\<open>products_create\<close>.\<close>

definition eighth_product :: PartialProduct where
  "eighth_product =
     \<lparr>pp_id = Some ''PROD007'', pp_name = Some ''Sweet'', pp_description = None,
      pp_price = Some (Fin (1 / 8)), pp_vat_rate = None, pp_barcode = None, pp_stock = None,
      pp_status = None, pp_created_at = None\<rparr>"

definition store_with_eighth :: mock_state where
  "store_with_eighth = fst (products_create eighth_product empty_store)"

definition one_sweet :: "(string \<times> number) list" where
  "one_sweet = [(''PROD007'', Fin 1)]"

section \<open>Evaluating the built-ins and the sample data\<close>

lemma floor_rat_divide_numeral:
  "\<lfloor>numeral a / numeral b :: rat\<rfloor> = numeral a div numeral b"
  using floor_divide_of_int_eq [of "numeral a" "numeral b", where ?'a = rat] by simp

lemma floor_rat_divide_neg_numeral:
  "\<lfloor>- (numeral a / numeral b) :: rat\<rfloor> = - numeral a div numeral b"
  using floor_divide_of_int_eq [of "- numeral a" "numeral b", where ?'a = rat] by simp

lemmas fl_eval = fl_def fl_scaled_def fl_pack_def binary_exponent_def round_half_even_def
  pow2_def Let_def bit_length.simps floor_rat_divide_numeral floor_rat_divide_neg_numeral

lemmas js_eval = js_add_def js_mul_def js_div_def js_sign_def Math_round_def round100_def

lemmas string_eval = toFixed2_def number_toString.simps digit_char_def padStart0_def

text \<open>Doubles with a known value: \<^verbatim>\<open>0.1\<close> and \<^verbatim>\<open>0.21\<close> are the doubles
  \<open>3602879701896397 / 2\<^sup>5\<^sup>5\<close> and \<open>7566047373982433 / 2\<^sup>5\<^sup>5\<close>; \<^verbatim>\<open>0.1 * 3\<close> is the double
  \<^verbatim>\<open>0.30000000000000004\<close>, not \<^verbatim>\<open>0.3\<close>; odd integers above \<open>2\<^sup>5\<^sup>3\<close> round to the even
  neighbour; \<^verbatim>\<open>1.575 * 100\<close> is 157.5 although the double \<^verbatim>\<open>1.575\<close> is below 1.575.\<close>

lemma known_doubles:
  "fl (1 / 10) = Fin (3602879701896397 / 2 ^ 55)"
  "fl (21 / 100) = Fin (7566047373982433 / 2 ^ 55)"
  "js_mul (fl (1 / 10)) (Fin 3) = fl (30000000000000004 / 100000000000000000)"
  "js_mul (fl (1 / 10)) (Fin 3) \<noteq> fl (3 / 10)"
  "fl 9007199254740993 = Fin 9007199254740992"
  "fl 9007199254740995 = Fin 9007199254740996"
  "js_mul (fl (1575 / 1000)) (Fin 100) = Fin (315 / 2)"
  by (simp_all add: js_eval fl_eval)

lemma non_finite_numbers:
  "js_add Infinity NegInfinity = NaN" "js_mul Infinity (Fin 0) = NaN"
  "js_mul NegInfinity (Fin (- 2)) = Infinity" "js_add (Fin 1) NaN = NaN"
  "round100 Infinity = Infinity" "round100 NaN = NaN" "toFixed2 NaN = ''NaN''"
  by (simp_all add: js_eval toFixed2_def)

lemma hex_ex_clock:
  "number_toString 16 1706778000000 = ''18d63e57a80''"
  "number_toString 16 1706778000001 = ''18d63e57a81''"
  by (simp_all add: number_toString.simps digit_char_def)

lemma invoice_number_1_2:
  "padStart0 4 (number_toString 10 (Suc 0)) = ''0001''"
  "padStart0 4 (number_toString 10 (Suc (Suc 0))) = ''0002''"
  by code_simp+

lemma length_init_sampleInvoices: "length init_sampleInvoices = 1"
  by (simp add: init_sampleInvoices_def)

lemma epoch_ex_clock: "number_toString 10 1706778000 = ''1706778000''"
  by (simp add: number_toString.simps digit_char_def)

lemma init_settings_ids:
  "s_seller_id init_mockSettings = ''SELLER001''"
  "s_store_name init_mockSettings = ''Demo Store''"
  by (simp_all add: init_mockSettings_def)

text \<open>Two Espresso: the line total is 5, the VAT sum is the double product
  \<^verbatim>\<open>5 * (21 / 100)\<close>; the rounded amounts are 5, 1.05 and 6.05.\<close>

lemma sums_two_espresso:
  "js_mul (Fin (5 / 2)) (Fin 2) = Fin 5"
  "js_add (Fin 0) (Fin 5) = Fin 5"
  "js_add (Fin 0) (js_mul (Fin 5) (js_div (Fin 21) 100)) = js_mul (Fin 5) (js_div (Fin 21) 100)"
  by (simp_all add: js_eval fl_eval)

lemma amounts_two_espresso:
  "round100 (Fin 5) = Fin 5"
  "round100 (js_mul (Fin 5) (js_div (Fin 21) 100)) = fl (105 / 100)"
  "round100 (js_add (Fin 5) (js_mul (Fin 5) (js_div (Fin 21) 100))) = fl (605 / 100)"
  by (simp_all add: js_eval fl_eval)

lemma fixed_two_espresso:
  "toFixed2 (js_add (Fin 5) (js_mul (Fin 5) (js_div (Fin 21) 100))) = ''6.05''"
  by (simp add: js_eval fl_eval string_eval)

lemma create_loop_two_espresso:
  "create_loop init_sampleProducts cnt two_espresso (Fin 0) (Fin 0) [] =
     Inr (Fin 5, js_mul (Fin 5) (js_div (Fin 21) 100),
          [\<lparr>item_id = Some 1, invoice_id = Some cnt, product_id = ''PROD001'',
            product_name = ''Espresso'', quantity = Fin 2, unit_price = Fin (5 / 2),
            vat_rate = Fin 21, line_total = Fin 5, return_status = rs_none\<rparr>])"
  by (simp add: two_espresso_def init_sampleProducts_def mk_product_def Let_def sums_two_espresso)

section \<open>Facts about the loops\<close>

lemma return_loop_eq:
  "return_loop ids its acc =
     (map (\<lambda>it. if includes_id ids (item_id it) then it\<lparr>return_status := rs_returned\<rparr> else it) its,
      foldl js_add acc (map line_total (filter (\<lambda>it. includes_id ids (item_id it)) its)))"
  by (induction its arbitrary: acc) simp_all

lemma invoices_create_Some:
  assumes "data (snd (invoices_create clk its pm em s)) = Some invoice"
  shows "\<exists>sub vt lines.
           create_loop (sampleProducts s) (invoiceCounter s + 1) its (Fin 0) (Fin 0) []
             = Inr (sub, vt, lines)
         \<and> fst (invoices_create clk its pm em s) =
             s\<lparr>invoiceCounter := invoiceCounter s + 1,
               sampleInvoices := sampleInvoices s @ [invoice]\<rparr>
         \<and> snd (invoices_create clk its pm em s) = \<lparr>success = True, data = Some invoice, error = None\<rparr>
         \<and> items invoice = lines \<and> subtotal invoice = round100 sub \<and> vat_amount invoice = round100 vt
         \<and> total invoice = round100 (js_add sub vt) \<and> status invoice = completed
         \<and> previous_hash invoice = None
         \<and> current_hash invoice = ''mock'' @ number_toString 16 (now_hash clk)
         \<and> created_at invoice = date_iso clk"
  using assms
  by (cases "create_loop (sampleProducts s) (invoiceCounter s + 1) its (Fin 0) (Fin 0) []")
     (auto simp: invoices_create_def Let_def)

section \<open>Whole-chain verification\<close>

text \<open>
  C1 (as amended). \<^verbatim>\<open>hash_chain_verify\<close> examines no record: for every store, tampered
  or not, it answers \<^verbatim>\<open>valid: true\<close> with \<^verbatim>\<open>checked_count\<close> equal to the number of
  stored invoices, and it names no failed invoice. Rewriting the stored records in any
  way (\<open>tamper\<close>) leaves the verdict as it was.
\<close>

theorem hash_chain_verify_always_valid:
  "hash_chain_verify s =
     \<lparr>success = True,
      data = Some \<lparr>cv_valid = True, checked_count = length (sampleInvoices s),
                   cv_error_message = None, failed_invoice_id = None\<rparr>,
      error = None\<rparr>
   \<and> hash_chain_verify (s\<lparr>sampleInvoices := map tamper (sampleInvoices s)\<rparr>)
       = hash_chain_verify s"
  by (simp add: hash_chain_verify_def)

lemma store_after_sale_invoices:
  "sampleInvoices store_after_sale =
     init_sampleInvoices @
     [\<lparr>inv_id = 2, invoice_number = ''INV-2024-0002'', seller_id = ''SELLER001'',
       store_name = ''Demo Store'', subtotal = Fin 5, vat_amount = fl (105 / 100),
       total = fl (605 / 100),
       payment_method = ''cash'', customer_email = None, previous_hash = None,
       current_hash = ''mock18d63e57a80'',
       qr_data = ''OPENINVOICE|v1|INV-2024-0002|6.05|mock18d6|1706778000'',
       qr_image = Some mockQrImage, status = completed,
       created_at = ''2024-02-01T09:00:00.000Z'',
       items =
         [\<lparr>item_id = Some 1, invoice_id = Some 2, product_id = ''PROD001'',
           product_name = ''Espresso'', quantity = Fin 2, unit_price = Fin (5 / 2),
           vat_rate = Fin 21, line_total = Fin 5, return_status = rs_none\<rparr>],
       currency_symbol = Some (s_currency_symbol init_mockSettings)\<rparr>]"
  unfolding store_after_sale_def invoices_create_def
  by (simp add: init_state_def ex_clock_def Let_def create_loop_two_espresso
      length_init_sampleInvoices invoice_number_1_2 hex_ex_clock amounts_two_espresso
      fixed_two_espresso epoch_ex_clock init_settings_ids)

text \<open>
  C1 as stated fails: after one sale the total of the new record is overwritten
  (\<open>6.05\<close> becomes \<open>999\<close>), and the verdict is still \<^verbatim>\<open>valid: true\<close> over both records
  with no failed invoice.
\<close>

theorem hash_chain_verify_tampered_counterexample:
  "total (sampleInvoices store_after_sale ! 1) = fl (605 / 100)
   \<and> total (sampleInvoices tampered_store ! 1) = Fin 999
   \<and> data (hash_chain_verify tampered_store) =
       Some \<lparr>cv_valid = True, checked_count = 2, cv_error_message = None,
             failed_invoice_id = None\<rparr>"
  by (simp add: hash_chain_verify_def tampered_store_def store_after_sale_invoices
      length_init_sampleInvoices nth_append)

section \<open>The hash of a new invoice\<close>

text \<open>
  C2 (as amended). The \<^verbatim>\<open>current_hash\<close> of a created invoice is the string \<^verbatim>\<open>mock\<close>
  followed by the lowercase hexadecimal digits of the \<^verbatim>\<open>Date.now()\<close> reading taken
  during the creation: it is a function of that clock reading alone, not of the
  invoice's fields.
\<close>

theorem current_hash_is_clock_reading:
  assumes "data (snd (invoices_create clk its pm em s)) = Some invoice"
  shows "current_hash invoice = ''mock'' @ number_toString 16 (now_hash clk)"
  using invoices_create_Some [OF assms] by blast

lemma create_two_espresso_init:
  "data (snd (invoices_create clk two_espresso ''cash'' None init_state)) =
     Some \<lparr>inv_id = 2, invoice_number = ''INV-2024-0002'', seller_id = ''SELLER001'',
       store_name = ''Demo Store'', subtotal = Fin 5, vat_amount = fl (105 / 100),
       total = fl (605 / 100),
       payment_method = ''cash'', customer_email = None, previous_hash = None,
       current_hash = ''mock'' @ number_toString 16 (now_hash clk),
       qr_data = ''OPENINVOICE|v1|INV-2024-0002|6.05|'' @ take 8 (''mock'' @ number_toString 16 (now_hash clk))
                 @ ''|'' @ number_toString 10 (now_qr clk div 1000),
       qr_image = Some mockQrImage, status = completed,
       created_at = date_iso clk,
       items =
         [\<lparr>item_id = Some 1, invoice_id = Some 2, product_id = ''PROD001'',
           product_name = ''Espresso'', quantity = Fin 2, unit_price = Fin (5 / 2),
           vat_rate = Fin 21, line_total = Fin 5, return_status = rs_none\<rparr>],
       currency_symbol = Some (s_currency_symbol init_mockSettings)\<rparr>"
  unfolding invoices_create_def
  by (simp add: init_state_def Let_def create_loop_two_espresso
      length_init_sampleInvoices invoice_number_1_2 amounts_two_espresso fixed_two_espresso
      init_settings_ids)

lemma create_two_espresso_empty:
  "data (snd (invoices_create clk two_espresso ''cash'' None empty_store)) =
     Some \<lparr>inv_id = 1, invoice_number = ''INV-2024-0001'', seller_id = ''SELLER001'',
       store_name = ''Demo Store'', subtotal = Fin 5, vat_amount = fl (105 / 100),
       total = fl (605 / 100),
       payment_method = ''cash'', customer_email = None, previous_hash = None,
       current_hash = ''mock'' @ number_toString 16 (now_hash clk),
       qr_data = ''OPENINVOICE|v1|INV-2024-0001|6.05|'' @ take 8 (''mock'' @ number_toString 16 (now_hash clk))
                 @ ''|'' @ number_toString 10 (now_qr clk div 1000),
       qr_image = Some mockQrImage, status = completed,
       created_at = date_iso clk,
       items =
         [\<lparr>item_id = Some 1, invoice_id = Some 1, product_id = ''PROD001'',
           product_name = ''Espresso'', quantity = Fin 2, unit_price = Fin (5 / 2),
           vat_rate = Fin 21, line_total = Fin 5, return_status = rs_none\<rparr>],
       currency_symbol = Some (s_currency_symbol init_mockSettings)\<rparr>"
  unfolding invoices_create_def
  by (simp add: empty_store_def init_state_def Let_def create_loop_two_espresso
      invoice_number_1_2 amounts_two_espresso fixed_two_espresso init_settings_ids)

theorem current_hash_is_clock_reading_witness:
  "data (snd (invoices_create ex_clock two_espresso ''cash'' None init_state)) \<noteq> None
   \<and> current_hash (the (data (snd (invoices_create ex_clock two_espresso ''cash'' None init_state))))
       = ''mock18d63e57a80''"
proof -
  obtain invoice where
    h: "data (snd (invoices_create ex_clock two_espresso ''cash'' None init_state)) = Some invoice"
    by (simp add: create_two_espresso_init)
  from current_hash_is_clock_reading [OF h] h show ?thesis
    by (simp add: ex_clock_def hex_ex_clock)
qed

text \<open>
  C2 as stated fails: two runs on the same store with the same items and the same
  \<^verbatim>\<open>created_at\<close> agree on invoice number, seller, total, lines, timestamp and previous
  hash, and still get different hashes, because the clock had moved on by one
  millisecond when the hash was taken.
\<close>

theorem current_hash_two_runs_counterexample:
  "(let a = the (data (snd (invoices_create ex_clock two_espresso ''cash'' None init_state)));
        b = the (data (snd (invoices_create ex_clock_later two_espresso ''cash'' None init_state)))
    in invoice_number a = invoice_number b \<and> seller_id a = seller_id b \<and> total a = total b
       \<and> items a = items b \<and> created_at a = created_at b
       \<and> previous_hash a = previous_hash b
       \<and> current_hash a = ''mock18d63e57a80'' \<and> current_hash b = ''mock18d63e57a81''
       \<and> current_hash a \<noteq> current_hash b)"
  by (simp add: create_two_espresso_init Let_def ex_clock_def ex_clock_later_def hex_ex_clock)

section \<open>Chain linkage at creation\<close>

text \<open>
  C3 (as amended). \<^verbatim>\<open>invoices_create\<close> never sets \<^verbatim>\<open>previous_hash\<close>: every created
  invoice is appended at the end of the store with the field absent, whether the store
  was empty or not.
\<close>

theorem created_invoice_has_no_previous_hash:
  assumes "data (snd (invoices_create clk its pm em s)) = Some invoice"
  shows "previous_hash invoice = None
         \<and> sampleInvoices (fst (invoices_create clk its pm em s)) = sampleInvoices s @ [invoice]"
proof -
  from invoices_create_Some [OF assms] have
    "fst (invoices_create clk its pm em s) =
       s\<lparr>invoiceCounter := invoiceCounter s + 1, sampleInvoices := sampleInvoices s @ [invoice]\<rparr>"
    "previous_hash invoice = None"
    by auto
  then show ?thesis by simp
qed

theorem created_invoice_has_no_previous_hash_witness:
  "data (snd (invoices_create ex_clock two_espresso ''cash'' None empty_store)) \<noteq> None
   \<and> previous_hash (the (data (snd (invoices_create ex_clock two_espresso ''cash'' None empty_store))))
       = None
   \<and> length (sampleInvoices (fst (invoices_create ex_clock two_espresso ''cash'' None empty_store))) = 1"
proof -
  obtain invoice where
    h: "data (snd (invoices_create ex_clock two_espresso ''cash'' None empty_store)) = Some invoice"
    by (simp add: create_two_espresso_empty)
  from created_invoice_has_no_previous_hash [OF h] h show ?thesis
    by (simp add: empty_store_def)
qed

text \<open>
  C3 as stated fails: on the empty store the created invoice's \<^verbatim>\<open>previous_hash\<close> is not
  \<^verbatim>\<open>"GENESIS"\<close>, and on the freshly loaded store it is not the \<^verbatim>\<open>current_hash\<close> of the
  record before it.
\<close>

theorem previous_hash_counterexample:
  "sampleInvoices empty_store = []
   \<and> previous_hash (the (data (snd (invoices_create ex_clock two_espresso ''cash'' None empty_store))))
       \<noteq> Some ''GENESIS''
   \<and> current_hash (last (sampleInvoices init_state)) = ''a1b2c3d4e5f6g7h8''
   \<and> previous_hash (the (data (snd (invoices_create ex_clock two_espresso ''cash'' None init_state))))
       \<noteq> Some (current_hash (last (sampleInvoices init_state)))"
proof -
  have "sampleInvoices empty_store = []"
    by (simp add: empty_store_def)
  moreover have "current_hash (last (sampleInvoices init_state)) = ''a1b2c3d4e5f6g7h8''"
    by (simp add: init_state_def init_sampleInvoices_def)
  ultimately show ?thesis
    by (simp add: create_two_espresso_init create_two_espresso_empty)
qed
section \<open>Returns\<close>

lemma includes_id_simps:
  "includes_id ids None = False"
  "includes_id ids (Some n) = (n \<in> set ids)"
  by (simp_all add: includes_id_def)

lemma find_sample_invoice:
  "find (\<lambda>i. invoice_number i = ''INV-2024-0001'') init_sampleInvoices
     = Some (hd init_sampleInvoices)"
  by (simp add: init_sampleInvoices_def)

lemma store_after_return_invoices:
  "sampleInvoices store_after_return =
     [(hd init_sampleInvoices)
        \<lparr>items := [(items (hd init_sampleInvoices) ! 0)\<lparr>return_status := rs_returned\<rparr>,
                   items (hd init_sampleInvoices) ! 1],
         status := partial_return\<rparr>]"
  unfolding store_after_return_def invoices_process_return_def
  by (simp add: init_state_def init_sampleInvoices_def return_loop_eq includes_id_simps)

text \<open>
  C4 (as amended). \<^verbatim>\<open>invoices_process_return\<close> has no \<^verbatim>\<open>AlreadyReturned\<close> failure:
  whenever the invoice number is found the call succeeds, every requested line is
  (again) marked \<^verbatim>\<open>returned\<close>, and \<^verbatim>\<open>refund_amount\<close> is the sum of the
  \<^verbatim>\<open>line_total\<close> of all requested lines, those already returned included.
\<close>

theorem process_return_succeeds_on_returned_lines:
  assumes "find (\<lambda>i. invoice_number i = n) (sampleInvoices s) = Some invoice"
  shows "success (snd (invoices_process_return n ids s))
         \<and> error (snd (invoices_process_return n ids s)) = None
         \<and> map_option refund_amount (data (snd (invoices_process_return n ids s)))
             = Some (foldl js_add (Fin 0) (map line_total
                       (filter (\<lambda>it. includes_id ids (item_id it)) (items invoice))))
         \<and> map_option (map return_status \<circ> items)
              (find (\<lambda>i. invoice_number i = n)
                 (sampleInvoices (fst (invoices_process_return n ids s))))
             = Some (map (\<lambda>it. if includes_id ids (item_id it) then rs_returned
                                 else return_status it) (items invoice))"
proof -
  have n: "invoice_number invoice = n"
    using assms by (auto simp: find_Some_iff)
  have upd: "find P (update_found P y xs) = Some y" if "find P xs = Some x" "P y"
    for P :: "Invoice \<Rightarrow> bool" and xs x y
    using that by (induction xs) (auto split: if_splits)
  show ?thesis
    using assms n
    by (simp add: invoices_process_return_def return_loop_eq Let_def upd comp_def
        if_distrib [of return_status] cong: if_cong)
qed

theorem process_return_succeeds_on_returned_lines_witness:
  "find (\<lambda>i. invoice_number i = ''INV-2024-0001'') (sampleInvoices store_after_return) \<noteq> None
   \<and> success (snd (invoices_process_return ''INV-2024-0001'' [1] store_after_return))
   \<and> map_option refund_amount
        (data (snd (invoices_process_return ''INV-2024-0001'' [1] store_after_return)))
       = Some (Fin 5)"
proof -
  let ?i = "(hd init_sampleInvoices)
        \<lparr>items := [(items (hd init_sampleInvoices) ! 0)\<lparr>return_status := rs_returned\<rparr>,
                   items (hd init_sampleInvoices) ! 1],
         status := partial_return\<rparr>"
  have h: "find (\<lambda>i. invoice_number i = ''INV-2024-0001'') (sampleInvoices store_after_return)
             = Some ?i"
    by (simp add: store_after_return_invoices) (simp add: init_sampleInvoices_def)
  have "foldl js_add (Fin 0)
          (map line_total (filter (\<lambda>it. includes_id [1] (item_id it)) (items ?i))) = Fin 5"
    by (simp add: init_sampleInvoices_def includes_id_simps sums_two_espresso)
  with process_return_succeeds_on_returned_lines [OF h, of "[1]"] h show ?thesis
    by simp
qed

text \<open>
  C4 as stated fails: line 1 of the sample invoice is returned, then requested again; the
  second call succeeds and refunds the line's 5.00 a second time.
\<close>

theorem double_return_counterexample:
  "map return_status (items (hd (sampleInvoices store_after_return))) = [rs_returned, rs_none]
   \<and> snd (invoices_process_return ''INV-2024-0001'' [1] store_after_return) =
       \<lparr>success = True,
        data = Some \<lparr>rr_invoice_number = ''INV-2024-0001'', refund_amount = Fin 5,
                     new_status = partial_return\<rparr>,
        error = None\<rparr>"
proof -
  have "snd (invoices_process_return ''INV-2024-0001'' [1] store_after_return) =
       \<lparr>success = True,
        data = Some \<lparr>rr_invoice_number = ''INV-2024-0001'', refund_amount = Fin 5,
                     new_status = partial_return\<rparr>,
        error = None\<rparr>"
    unfolding invoices_process_return_def
    by (simp add: store_after_return_invoices)
       (simp add: init_sampleInvoices_def return_loop_eq includes_id_simps sums_two_espresso)
  then show ?thesis
    by (simp add: store_after_return_invoices) (simp add: init_sampleInvoices_def)
qed

section \<open>QR validation\<close>

lemma split_v1_payload:
  "split_pipe ''OPENINVOICE|v1|INV-2024-0001|12.10|a1b2c3d4|1706745600'' =
     [''OPENINVOICE'', ''v1'', ''INV-2024-0001'', ''12.10'', ''a1b2c3d4'', ''1706745600'']"
  by code_simp

lemma split_v2_payload:
  "split_pipe ''OPENINVOICE|v2|INV-2024-0001|12.10|a1b2c3d4|1706745600'' =
     [''OPENINVOICE'', ''v2'', ''INV-2024-0001'', ''12.10'', ''a1b2c3d4'', ''1706745600'']"
  by code_simp

lemma split_forged_payload:
  "split_pipe ''OPENINVOICE|v1|INV-2024-0001|99.99|00000000|0'' =
     [''OPENINVOICE'', ''v1'', ''INV-2024-0001'', ''99.99'', ''00000000'', ''0'']"
  by code_simp

lemma find_sample_invoice_state:
  "find (\<lambda>i. invoice_number i = ''INV-2024-0001'') (sampleInvoices init_state)
     = Some (hd init_sampleInvoices)"
  by (simp add: init_state_def find_sample_invoice)

text \<open>
  C5 (as amended). \<^verbatim>\<open>qr_validate\<close> answers with the format error exactly when the
  payload does not have 6 pipe-separated fields or field 0 is not the literal
  \<^verbatim>\<open>OPENINVOICE\<close>. Field 1, the version, is never examined: two payloads whose fields
  differ only there get the same answer, and there is no \<^verbatim>\<open>UnsupportedVersion\<close>
  result.
\<close>

theorem qr_validate_ignores_version:
  "(map_option vr_error_message (data (qr_validate q s)) = Some (Some ''Invalid QR code format''))
     = (length (split_pipe q) \<noteq> 6 \<or> split_pipe q ! 0 \<noteq> ''OPENINVOICE'')
   \<and> (split_pipe q' = (split_pipe q)[1 := v] \<longrightarrow> qr_validate q' s = qr_validate q s)"
proof -
  have "qr_validate q' s = qr_validate q s" if "split_pipe q' = (split_pipe q)[1 := v]"
  proof (cases "length (split_pipe q) = 6")
    case True
    then show ?thesis using that by (simp add: qr_validate_def)
  next
    case False
    then show ?thesis using that by (simp add: qr_validate_def)
  qed
  moreover have "(map_option vr_error_message (data (qr_validate q s))
                    = Some (Some ''Invalid QR code format''))
     = (length (split_pipe q) \<noteq> 6 \<or> split_pipe q ! 0 \<noteq> ''OPENINVOICE'')"
    by (simp add: qr_validate_def Let_def split: option.splits)
  ultimately show ?thesis by blast
qed

theorem qr_validate_ignores_version_witness:
  "split_pipe ''OPENINVOICE|v2|INV-2024-0001|12.10|a1b2c3d4|1706745600''
     = (split_pipe ''OPENINVOICE|v1|INV-2024-0001|12.10|a1b2c3d4|1706745600'')[1 := ''v2'']
   \<and> qr_validate ''OPENINVOICE|v2|INV-2024-0001|12.10|a1b2c3d4|1706745600'' init_state
     = qr_validate ''OPENINVOICE|v1|INV-2024-0001|12.10|a1b2c3d4|1706745600'' init_state
   \<and> length (split_pipe ''OPENINVOICE|v2|INV-2024-0001|12.10|a1b2c3d4|1706745600'') = 6
   \<and> map_option vr_error_message
        (data (qr_validate ''OPENINVOICE|v2|INV-2024-0001|12.10|a1b2c3d4|1706745600'' init_state))
       \<noteq> Some (Some ''Invalid QR code format'')"
proof -
  have h: "split_pipe ''OPENINVOICE|v2|INV-2024-0001|12.10|a1b2c3d4|1706745600''
     = (split_pipe ''OPENINVOICE|v1|INV-2024-0001|12.10|a1b2c3d4|1706745600'')[1 := ''v2'']"
    by (simp add: split_v1_payload split_v2_payload)
  from qr_validate_ignores_version
         [of "''OPENINVOICE|v2|INV-2024-0001|12.10|a1b2c3d4|1706745600''" init_state
             "''OPENINVOICE|v2|INV-2024-0001|12.10|a1b2c3d4|1706745600''"
             "''v2''"]
       qr_validate_ignores_version
         [of "''OPENINVOICE|v1|INV-2024-0001|12.10|a1b2c3d4|1706745600''" init_state
             "''OPENINVOICE|v2|INV-2024-0001|12.10|a1b2c3d4|1706745600''"
             "''v2''"]
       h
  show ?thesis
    by (simp add: split_v1_payload split_v2_payload)
qed

text \<open>
  C5 as stated fails: a well-formed payload with version \<^verbatim>\<open>v2\<close> is parsed and accepted,
  with every check reported as passed.
\<close>

theorem unsupported_version_counterexample:
  "split_pipe ''OPENINVOICE|v2|INV-2024-0001|12.10|a1b2c3d4|1706745600'' ! 1 = ''v2''
   \<and> success (qr_validate ''OPENINVOICE|v2|INV-2024-0001|12.10|a1b2c3d4|1706745600'' init_state)
   \<and> map_option vr_valid
        (data (qr_validate ''OPENINVOICE|v2|INV-2024-0001|12.10|a1b2c3d4|1706745600'' init_state))
       = Some True
   \<and> map_option vr_error_message
        (data (qr_validate ''OPENINVOICE|v2|INV-2024-0001|12.10|a1b2c3d4|1706745600'' init_state))
       = Some None"
  by (simp add: qr_validate_def split_v2_payload find_sample_invoice_state)

text \<open>
  C6 (as amended). For every payload that passes the format check and whose invoice
  number is found, \<^verbatim>\<open>qr_validate\<close> answers \<^verbatim>\<open>valid: true\<close> with \<^verbatim>\<open>format_valid\<close>,
  \<^verbatim>\<open>invoice_exists\<close>, \<^verbatim>\<open>hash_matches\<close>, \<^verbatim>\<open>total_matches\<close> and \<^verbatim>\<open>hash_verified\<close> all
  \<^verbatim>\<open>true\<close> and the stored invoice attached: no hash is recomputed and neither the
  stored hash nor the stored total is compared with anything in the payload.
\<close>

theorem qr_validate_found_always_valid:
  assumes "length (split_pipe q) = 6" and "split_pipe q ! 0 = ''OPENINVOICE''"
    and "find (\<lambda>i. invoice_number i = split_pipe q ! 2) (sampleInvoices s) = Some invoice"
  shows "qr_validate q s =
           \<lparr>success = True,
            data = Some \<lparr>vr_valid = True, vr_invoice_number = Some (split_pipe q ! 2),
                         vr_error_message = None,
                         invoice_data = Some (invoice\<lparr>qr_image := Some mockQrImage\<rparr>),
                         checks = Some \<lparr>format_valid = Some True, invoice_exists = Some True,
                                        hash_matches = Some True, total_matches = Some True,
                                        hash_verified = Some True\<rparr>\<rparr>,
            error = None\<rparr>"
  using assms by (simp add: qr_validate_def)

theorem qr_validate_found_always_valid_witness:
  "length (split_pipe ''OPENINVOICE|v1|INV-2024-0001|12.10|a1b2c3d4|1706745600'') = 6
   \<and> split_pipe ''OPENINVOICE|v1|INV-2024-0001|12.10|a1b2c3d4|1706745600'' ! 0 = ''OPENINVOICE''
   \<and> find (\<lambda>i. invoice_number i
                  = split_pipe ''OPENINVOICE|v1|INV-2024-0001|12.10|a1b2c3d4|1706745600'' ! 2)
        (sampleInvoices init_state) = Some (hd init_sampleInvoices)
   \<and> map_option vr_valid
        (data (qr_validate ''OPENINVOICE|v1|INV-2024-0001|12.10|a1b2c3d4|1706745600'' init_state))
       = Some True"
proof -
  have a: "length (split_pipe ''OPENINVOICE|v1|INV-2024-0001|12.10|a1b2c3d4|1706745600'') = 6"
    and b: "split_pipe ''OPENINVOICE|v1|INV-2024-0001|12.10|a1b2c3d4|1706745600'' ! 0
              = ''OPENINVOICE''"
    by (simp_all add: split_v1_payload)
  have c: "find (\<lambda>i. invoice_number i
                  = split_pipe ''OPENINVOICE|v1|INV-2024-0001|12.10|a1b2c3d4|1706745600'' ! 2)
        (sampleInvoices init_state) = Some (hd init_sampleInvoices)"
    by (simp add: split_v1_payload find_sample_invoice_state)
  from qr_validate_found_always_valid [OF a b c] a b c show ?thesis
    by simp
qed

text \<open>
  C6 as stated fails: a payload naming the sample invoice with total \<^verbatim>\<open>99.99\<close> and
  hash prefix \<^verbatim>\<open>00000000\<close>, where the store holds total 12.10 and a hash starting
  \<^verbatim>\<open>a1b2c3d4\<close>, gets \<^verbatim>\<open>valid: true\<close> with \<^verbatim>\<open>total_matches\<close> and \<^verbatim>\<open>hash_matches\<close> both
  \<^verbatim>\<open>true\<close>.
\<close>

theorem forged_total_counterexample:
  "split_pipe ''OPENINVOICE|v1|INV-2024-0001|99.99|00000000|0'' ! 3 = ''99.99''
   \<and> split_pipe ''OPENINVOICE|v1|INV-2024-0001|99.99|00000000|0'' ! 4 = ''00000000''
   \<and> map_option total (find (\<lambda>i. invoice_number i = ''INV-2024-0001'') (sampleInvoices init_state))
       = Some (fl (121 / 10))
   \<and> map_option (take 8 \<circ> current_hash)
        (find (\<lambda>i. invoice_number i = ''INV-2024-0001'') (sampleInvoices init_state))
       = Some ''a1b2c3d4''
   \<and> map_option vr_valid
        (data (qr_validate ''OPENINVOICE|v1|INV-2024-0001|99.99|00000000|0'' init_state))
       = Some True
   \<and> map_option checks
        (data (qr_validate ''OPENINVOICE|v1|INV-2024-0001|99.99|00000000|0'' init_state))
       = Some (Some \<lparr>format_valid = Some True, invoice_exists = Some True,
                     hash_matches = Some True, total_matches = Some True,
                     hash_verified = Some True\<rparr>)"
proof -
  have "find (\<lambda>i. invoice_number i = ''INV-2024-0001'') (sampleInvoices init_state)
          = Some (hd init_sampleInvoices)"
    by (rule find_sample_invoice_state)
  moreover have "total (hd init_sampleInvoices) = fl (121 / 10)"
    "take 8 (current_hash (hd init_sampleInvoices)) = ''a1b2c3d4''"
    by (simp_all add: init_sampleInvoices_def)
  ultimately show ?thesis
    by (simp add: qr_validate_def split_forged_payload)
qed

section \<open>Invoice status after a return\<close>

text \<open>
  C7 (the code at a failing input). The sample invoice is \<^verbatim>\<open>completed\<close> and none of its
  lines is returned. \<^verbatim>\<open>invoices_process_return\<close> with an empty list of line ids, or
  with an id that no line has, returns no line and still sets the invoice's status
  (and the reported \<^verbatim>\<open>new_status\<close>) to \<^verbatim>\<open>partial_return\<close>, where I3 requires
  \<^verbatim>\<open>completed\<close>.
\<close>

theorem return_of_no_line_sets_partial_return:
  "status (hd (sampleInvoices init_state)) = completed
   \<and> map return_status (items (hd (sampleInvoices init_state))) = [rs_none, rs_none]
   \<and> map return_status
         (items (hd (sampleInvoices (fst (invoices_process_return ''INV-2024-0001'' [] init_state)))))
       = [rs_none, rs_none]
   \<and> status (hd (sampleInvoices (fst (invoices_process_return ''INV-2024-0001'' [] init_state))))
       = partial_return
   \<and> snd (invoices_process_return ''INV-2024-0001'' [] init_state)
       = \<lparr>success = True,
          data = Some \<lparr>rr_invoice_number = ''INV-2024-0001'', refund_amount = Fin 0,
                       new_status = partial_return\<rparr>,
          error = None\<rparr>
   \<and> map return_status
         (items (hd (sampleInvoices (fst (invoices_process_return ''INV-2024-0001'' [99] init_state)))))
       = [rs_none, rs_none]
   \<and> status (hd (sampleInvoices (fst (invoices_process_return ''INV-2024-0001'' [99] init_state))))
       = partial_return"
  unfolding invoices_process_return_def
  by (simp add: init_state_def init_sampleInvoices_def return_loop_eq includes_id_simps)

section \<open>Amounts of a new invoice\<close>

lemma create_loop_Inr:
  "create_loop ps cnt its sub vt acc = Inr (sub', vt', acc') \<Longrightarrow>
     \<exists>new. acc' = acc @ new
       \<and> map product_id new = map fst its
       \<and> map quantity new = map snd its
       \<and> (\<forall>it \<in> set new. line_total it = js_mul (unit_price it) (quantity it)
                          \<and> return_status it = rs_none)
       \<and> sub' = foldl js_add sub (map line_total new)
       \<and> vt' = foldl js_add vt
                 (map (\<lambda>it. js_mul (line_total it) (js_div (vat_rate it) 100)) new)"
proof (induction its arbitrary: sub vt acc)
  case Nil
  then show ?case by simp
next
  case (Cons a its)
  obtain pid qty where a: "a = (pid, qty)" by (cases a)
  from Cons.prems a obtain prd where f: "find (\<lambda>p. p_id p = pid) ps = Some prd"
    by (auto split: option.splits)
  have pin: "p_id prd = pid"
    using f by (auto simp: find_Some_iff)
  let ?it = "\<lparr>item_id = Some (length acc + 1), invoice_id = Some cnt,
                   product_id = p_id prd, product_name = p_name prd, quantity = qty,
                   unit_price = p_price prd, vat_rate = p_vat_rate prd,
                   line_total = js_mul (p_price prd) qty, return_status = rs_none\<rparr>"
  from Cons.prems a f have
    "create_loop ps cnt its (js_add sub (js_mul (p_price prd) qty))
        (js_add vt (js_mul (js_mul (p_price prd) qty) (js_div (p_vat_rate prd) 100)))
        (acc @ [?it]) = Inr (sub', vt', acc')"
    by (simp add: Let_def)
  from Cons.IH [OF this] obtain new where n:
    "acc' = (acc @ [?it]) @ new" "map product_id new = map fst its"
    "map quantity new = map snd its"
    "\<forall>it \<in> set new. line_total it = js_mul (unit_price it) (quantity it)
                      \<and> return_status it = rs_none"
    "sub' = foldl js_add (js_add sub (js_mul (p_price prd) qty)) (map line_total new)"
    "vt' = foldl js_add
             (js_add vt (js_mul (js_mul (p_price prd) qty) (js_div (p_vat_rate prd) 100)))
             (map (\<lambda>it. js_mul (line_total it) (js_div (vat_rate it) 100)) new)"
    by blast
  show ?case
    apply (rule exI [of _ "?it # new"])
    using n pin a by auto
qed

lemma round100_hundredths:
  assumes "round100 x = Fin y"
  shows "\<exists>k::int. round100 x = fl (of_int k / 100)"
proof (cases "js_mul x (Fin 100)")
  case (Fin a)
  then have "round100 x = fl (of_int \<lfloor>a + 1 / 2\<rfloor> / 100)"
    by (simp add: round100_def Math_round_def js_div_def)
  then show ?thesis by blast
next
  case Infinity
  with assms show ?thesis by (simp add: round100_def Math_round_def js_div_def)
next
  case NegInfinity
  with assms show ?thesis by (simp add: round100_def Math_round_def js_div_def)
next
  case NaN
  with assms show ?thesis by (simp add: round100_def Math_round_def js_div_def)
qed

text \<open>Three Espresso: line total 7.5; the rounded amounts are 7.5, 1.58 and 9.07, and
  7.5 + 1.58 is 9.08.\<close>

lemma sums_three_espresso:
  "js_mul (Fin (5 / 2)) (Fin 3) = Fin (15 / 2)"
  "js_add (Fin 0) (Fin (15 / 2)) = Fin (15 / 2)"
  "js_add (Fin 0) (js_mul (Fin (15 / 2)) (js_div (Fin 21) 100))
     = js_mul (Fin (15 / 2)) (js_div (Fin 21) 100)"
  by (simp_all add: js_eval fl_eval)

lemma amounts_three_espresso:
  "round100 (Fin (15 / 2)) = Fin (15 / 2)"
  "round100 (js_mul (Fin (15 / 2)) (js_div (Fin 21) 100)) = fl (158 / 100)"
  "round100 (js_add (Fin (15 / 2)) (js_mul (Fin (15 / 2)) (js_div (Fin 21) 100)))
     = fl (907 / 100)"
  "js_add (Fin (15 / 2)) (fl (158 / 100)) = fl (908 / 100)"
  "fl (907 / 100) \<noteq> fl (908 / 100)"
  by (simp_all add: js_eval fl_eval)

lemma fixed_three_espresso:
  "toFixed2 (js_add (Fin (15 / 2)) (js_mul (Fin (15 / 2)) (js_div (Fin 21) 100))) = ''9.07''"
  by (simp add: js_eval fl_eval string_eval)

lemma create_loop_three_espresso:
  "create_loop init_sampleProducts cnt three_espresso (Fin 0) (Fin 0) [] =
     Inr (Fin (15 / 2), js_mul (Fin (15 / 2)) (js_div (Fin 21) 100),
          [\<lparr>item_id = Some 1, invoice_id = Some cnt, product_id = ''PROD001'',
            product_name = ''Espresso'', quantity = Fin 3, unit_price = Fin (5 / 2),
            vat_rate = Fin 21, line_total = Fin (15 / 2), return_status = rs_none\<rparr>])"
  by (simp add: three_espresso_def init_sampleProducts_def mk_product_def Let_def
      sums_three_espresso)

lemma create_three_espresso_init:
  "data (snd (invoices_create clk three_espresso ''cash'' None init_state)) =
     Some \<lparr>inv_id = 2, invoice_number = ''INV-2024-0002'', seller_id = ''SELLER001'',
       store_name = ''Demo Store'', subtotal = Fin (15 / 2), vat_amount = fl (158 / 100),
       total = fl (907 / 100),
       payment_method = ''cash'', customer_email = None, previous_hash = None,
       current_hash = ''mock'' @ number_toString 16 (now_hash clk),
       qr_data = ''OPENINVOICE|v1|INV-2024-0002|9.07|'' @ take 8 (''mock'' @ number_toString 16 (now_hash clk))
                 @ ''|'' @ number_toString 10 (now_qr clk div 1000),
       qr_image = Some mockQrImage, status = completed,
       created_at = date_iso clk,
       items =
         [\<lparr>item_id = Some 1, invoice_id = Some 2, product_id = ''PROD001'',
           product_name = ''Espresso'', quantity = Fin 3, unit_price = Fin (5 / 2),
           vat_rate = Fin 21, line_total = Fin (15 / 2), return_status = rs_none\<rparr>],
       currency_symbol = Some (s_currency_symbol init_mockSettings)\<rparr>"
  unfolding invoices_create_def
  by (simp add: init_state_def Let_def create_loop_three_espresso
      length_init_sampleInvoices invoice_number_1_2 amounts_three_espresso fixed_three_espresso
      init_settings_ids)

text \<open>One Espresso: the total is 3.03 while \<^verbatim>\<open>qr_data\<close> shows the unrounded total as
  3.02. Nine Espresso: the VAT is 4.72.\<close>

lemma amounts_one_and_nine_espresso:
  "round100 (js_add (Fin (5 / 2)) (js_mul (Fin (5 / 2)) (js_div (Fin 21) 100))) = fl (303 / 100)"
  "toFixed2 (js_add (Fin (5 / 2)) (js_mul (Fin (5 / 2)) (js_div (Fin 21) 100))) = ''3.02''"
  "round100 (js_mul (js_mul (Fin (5 / 2)) (Fin 9)) (js_div (Fin 21) 100)) = fl (472 / 100)"
  by (simp_all add: js_eval fl_eval string_eval)

text \<open>One unit of the product priced 0.125: line total 0.125; the rounded amounts are
  0.13, 0.03 and 0.15, and 0.13 + 0.03 is 0.16.\<close>

lemma sums_one_sweet:
  "js_mul (Fin (1 / 8)) (Fin 1) = Fin (1 / 8)"
  "js_add (Fin 0) (Fin (1 / 8)) = Fin (1 / 8)"
  "js_add (Fin 0) (js_mul (Fin (1 / 8)) (js_div (Fin 21) 100))
     = js_mul (Fin (1 / 8)) (js_div (Fin 21) 100)"
  by (simp_all add: js_eval fl_eval)

lemma amounts_one_sweet:
  "round100 (Fin (1 / 8)) = fl (13 / 100)"
  "round100 (js_mul (Fin (1 / 8)) (js_div (Fin 21) 100)) = fl (3 / 100)"
  "round100 (js_add (Fin (1 / 8)) (js_mul (Fin (1 / 8)) (js_div (Fin 21) 100)))
     = fl (15 / 100)"
  "js_add (fl (13 / 100)) (fl (3 / 100)) = fl (16 / 100)"
  "fl (15 / 100) \<noteq> fl (16 / 100)"
  "fl (13 / 100) \<noteq> Fin (1 / 8)"
  by (simp_all add: js_eval fl_eval)

lemma fixed_one_sweet:
  "toFixed2 (js_add (Fin (1 / 8)) (js_mul (Fin (1 / 8)) (js_div (Fin 21) 100))) = ''0.15''"
  by (simp add: js_eval fl_eval string_eval)

lemma create_eighth:
  "data (snd (invoices_create clk one_sweet ''cash'' None store_with_eighth)) =
     Some \<lparr>inv_id = 1, invoice_number = ''INV-2024-0001'', seller_id = ''SELLER001'',
       store_name = ''Demo Store'', subtotal = fl (13 / 100), vat_amount = fl (3 / 100),
       total = fl (15 / 100),
       payment_method = ''cash'', customer_email = None, previous_hash = None,
       current_hash = ''mock'' @ number_toString 16 (now_hash clk),
       qr_data = ''OPENINVOICE|v1|INV-2024-0001|0.15|'' @ take 8 (''mock'' @ number_toString 16 (now_hash clk))
                 @ ''|'' @ number_toString 10 (now_qr clk div 1000),
       qr_image = Some mockQrImage, status = completed,
       created_at = date_iso clk,
       items =
         [\<lparr>item_id = Some 1, invoice_id = Some 1, product_id = ''PROD007'',
           product_name = ''Sweet'', quantity = Fin 1, unit_price = Fin (1 / 8),
           vat_rate = Fin 21, line_total = Fin (1 / 8), return_status = rs_none\<rparr>],
       currency_symbol = Some (s_currency_symbol init_mockSettings)\<rparr>"
proof -
  have p: "sampleProducts store_with_eighth = init_sampleProducts @
     [\<lparr>p_id = ''PROD007'', p_name = ''Sweet'', p_description = [], p_price = Fin (1 / 8),
       p_vat_rate = Fin 21, p_barcode = None, p_stock = Fin 0, p_status = active,
       p_created_at = None\<rparr>]"
    "sampleInvoices store_with_eighth = []" "invoiceCounter store_with_eighth = 0"
    "mockSettings store_with_eighth = init_mockSettings"
    by (simp_all add: store_with_eighth_def products_create_def eighth_product_def
        empty_store_def init_state_def or_string_def or_number_def Let_def)
  have l: "create_loop (sampleProducts store_with_eighth) cnt one_sweet (Fin 0) (Fin 0) [] =
     Inr (Fin (1 / 8), js_mul (Fin (1 / 8)) (js_div (Fin 21) 100),
          [\<lparr>item_id = Some 1, invoice_id = Some cnt, product_id = ''PROD007'',
            product_name = ''Sweet'', quantity = Fin 1, unit_price = Fin (1 / 8),
            vat_rate = Fin 21, line_total = Fin (1 / 8), return_status = rs_none\<rparr>])" for cnt
    by (simp add: p one_sweet_def init_sampleProducts_def mk_product_def Let_def
        sums_one_sweet)
  show ?thesis
    unfolding invoices_create_def
    by (simp add: p(2-) l Let_def invoice_number_1_2 init_settings_ids amounts_one_sweet
        fixed_one_sweet)
qed

text \<open>The sums and comparisons of the rounded amounts, with the fractions in lowest
  terms.\<close>

lemma sums_of_rounded_amounts:
  "js_add (fl (13 / 100)) (fl (3 / 100)) = fl (4 / 25)"
  "fl (3 / 20) \<noteq> fl (4 / 25)"
  "fl (13 / 100) \<noteq> Fin (1 / 8)"
  "js_add (Fin (15 / 2)) (fl (79 / 50)) = fl (227 / 25)"
  "fl (907 / 100) \<noteq> fl (227 / 25)"
  by (simp_all add: js_eval fl_eval)

text \<open>
  C8 (as amended). For every created invoice, each \<^verbatim>\<open>line_total\<close> is the double product
  \<^verbatim>\<open>unit_price * quantity\<close>, stored with no rounding per line. \<^verbatim>\<open>subtotal\<close>,
  \<^verbatim>\<open>vat_amount\<close> and \<^verbatim>\<open>total\<close> are \<^verbatim>\<open>Math.round(x * 100) / 100\<close>, computed in double
  arithmetic, of the running sum of the line totals, of the running sum of the lines' VAT
  \<^verbatim>\<open>line_total * (vat_rate / 100)\<close>, and of the sum of these two unrounded sums; each of
  them, when finite, is the double nearest to a whole number of hundredths. \<^verbatim>\<open>total\<close> is
  not computed from \<^verbatim>\<open>subtotal\<close> and \<^verbatim>\<open>vat_amount\<close>. The status is \<^verbatim>\<open>completed\<close>. In
  particular one line of 2 at price 2.50 and VAT 21% on an empty store gives subtotal 5,
  VAT 1.05, total 6.05 and status \<^verbatim>\<open>completed\<close>.
\<close>

theorem created_invoice_amounts:
  assumes "data (snd (invoices_create clk its pm em s)) = Some invoice"
  shows "(\<forall>it \<in> set (items invoice). line_total it = js_mul (unit_price it) (quantity it))
     \<and> map quantity (items invoice) = map snd its
     \<and> subtotal invoice = round100 (foldl js_add (Fin 0) (map line_total (items invoice)))
     \<and> vat_amount invoice
         = round100 (foldl js_add (Fin 0)
             (map (\<lambda>it. js_mul (line_total it) (js_div (vat_rate it) 100)) (items invoice)))
     \<and> total invoice
         = round100 (js_add (foldl js_add (Fin 0) (map line_total (items invoice)))
             (foldl js_add (Fin 0)
                (map (\<lambda>it. js_mul (line_total it) (js_div (vat_rate it) 100)) (items invoice))))
     \<and> status invoice = completed
     \<and> (\<forall>x y. round100 x = Fin y \<longrightarrow> (\<exists>k::int. round100 x = fl (of_int k / 100)))
     \<and> map_option (\<lambda>i. (map quantity (items i), map unit_price (items i), map vat_rate (items i),
                          subtotal i, vat_amount i, total i, status i))
          (data (snd (invoices_create clk two_espresso ''cash'' None empty_store)))
        = Some ([Fin 2], [Fin (5 / 2)], [Fin 21], Fin 5, fl (105 / 100), fl (605 / 100),
                completed)"
proof -
  from invoices_create_Some [OF assms] obtain sub vt lines where c:
    "create_loop (sampleProducts s) (invoiceCounter s + 1) its (Fin 0) (Fin 0) []
       = Inr (sub, vt, lines)"
    "items invoice = lines" "subtotal invoice = round100 sub" "vat_amount invoice = round100 vt"
    "total invoice = round100 (js_add sub vt)" "status invoice = completed"
    by blast
  from create_loop_Inr [OF c(1)] have l:
    "map quantity lines = map snd its"
    "\<forall>it \<in> set lines. line_total it = js_mul (unit_price it) (quantity it)"
    "sub = foldl js_add (Fin 0) (map line_total lines)"
    "vt = foldl js_add (Fin 0)
            (map (\<lambda>it. js_mul (line_total it) (js_div (vat_rate it) 100)) lines)"
    by auto
  have scenario: "map_option (\<lambda>i. (map quantity (items i), map unit_price (items i),
                          map vat_rate (items i), subtotal i, vat_amount i, total i, status i))
          (data (snd (invoices_create clk two_espresso ''cash'' None empty_store)))
        = Some ([Fin 2], [Fin (5 / 2)], [Fin 21], Fin 5, fl (105 / 100), fl (605 / 100),
                completed)"
    by (simp add: create_two_espresso_empty)
  have hundredths: "\<forall>x y. round100 x = Fin y \<longrightarrow> (\<exists>k::int. round100 x = fl (of_int k / 100))"
    using round100_hundredths by blast
  from c(2-) l scenario hundredths show ?thesis
    by (simp only:)
qed

text \<open>Three Espresso on the freshly loaded store: subtotal 7.5, VAT 1.58, total 9.07.\<close>

theorem created_invoice_amounts_witness:
  "data (snd (invoices_create ex_clock three_espresso ''cash'' None init_state)) \<noteq> None
   \<and> (let invoice = the (data (snd (invoices_create ex_clock three_espresso ''cash'' None
                                      init_state)))
      in map line_total (items invoice) = [Fin (15 / 2)]
         \<and> map unit_price (items invoice) = [Fin (5 / 2)]
         \<and> map quantity (items invoice) = [Fin 3]
         \<and> js_mul (Fin (5 / 2)) (Fin 3) = Fin (15 / 2)
         \<and> subtotal invoice = Fin (15 / 2) \<and> vat_amount invoice = fl (158 / 100)
         \<and> total invoice = fl (907 / 100)
         \<and> total invoice
             = round100 (js_add (foldl js_add (Fin 0) (map line_total (items invoice)))
                 (foldl js_add (Fin 0)
                    (map (\<lambda>it. js_mul (line_total it) (js_div (vat_rate it) 100))
                       (items invoice)))))"
proof -
  obtain invoice where
    h: "data (snd (invoices_create ex_clock three_espresso ''cash'' None init_state))
          = Some invoice"
    by (simp add: create_three_espresso_init)
  have v: "map line_total (items invoice) = [Fin (15 / 2)]"
    "map unit_price (items invoice) = [Fin (5 / 2)]" "map quantity (items invoice) = [Fin 3]"
    "subtotal invoice = Fin (15 / 2)" "vat_amount invoice = fl (158 / 100)"
    "total invoice = fl (907 / 100)"
    using h by (auto simp: create_three_espresso_init)
  from created_invoice_amounts [OF h] have
    "total invoice
       = round100 (js_add (foldl js_add (Fin 0) (map line_total (items invoice)))
           (foldl js_add (Fin 0)
              (map (\<lambda>it. js_mul (line_total it) (js_div (vat_rate it) 100)) (items invoice))))"
    by blast
  with h v sums_three_espresso(1) show ?thesis
    by (simp only: Let_def option.sel) simp
qed

text \<open>
  C8 as stated fails. For a product priced 0.125 the line total of one unit stays 0.125,
  where rounding per line gives 0.13; the invoice has subtotal 0.13, VAT 0.03 and total
  0.15, which is not their sum 0.16. For three Espresso of the sample catalogue the
  invoice has subtotal 7.5, VAT 1.58 and total 9.07, which is not their sum 9.08.
\<close>

theorem line_total_not_rounded_counterexample:
  "(let invoice = the (data (snd (invoices_create ex_clock one_sweet ''cash'' None
                                      store_with_eighth)));
        espresso = the (data (snd (invoices_create ex_clock three_espresso ''cash'' None
                                      init_state)))
    in map quantity (items invoice) = [Fin 1] \<and> map unit_price (items invoice) = [Fin (1 / 8)]
       \<and> map line_total (items invoice) = [Fin (1 / 8)]
       \<and> round100 (js_mul (Fin (1 / 8)) (Fin 1)) = fl (13 / 100)
       \<and> fl (13 / 100) \<noteq> Fin (1 / 8)
       \<and> subtotal invoice = fl (13 / 100) \<and> vat_amount invoice = fl (3 / 100)
       \<and> total invoice = fl (15 / 100)
       \<and> js_add (subtotal invoice) (vat_amount invoice) = fl (16 / 100)
       \<and> total invoice \<noteq> js_add (subtotal invoice) (vat_amount invoice)
       \<and> subtotal espresso = Fin (15 / 2) \<and> vat_amount espresso = fl (158 / 100)
       \<and> total espresso = fl (907 / 100)
       \<and> js_add (subtotal espresso) (vat_amount espresso) = fl (908 / 100)
       \<and> total espresso \<noteq> js_add (subtotal espresso) (vat_amount espresso))"
  by (simp add: create_eighth create_three_espresso_init Let_def sums_one_sweet
      amounts_one_sweet sums_of_rounded_amounts)

section \<open>What a return leaves unchanged\<close>

lemma update_found_find:
  "find P xs = Some x \<Longrightarrow> \<exists>i<length xs. xs ! i = x \<and> update_found P y xs = xs[i := y]"
proof (induction xs)
  case Nil
  then show ?case by simp
next
  case (Cons a xs)
  show ?case
  proof (cases "P a")
    case True
    with Cons.prems show ?thesis by (intro exI [of _ 0]) simp
  next
    case False
    with Cons.prems have "find P xs = Some x" by simp
    from Cons.IH [OF this] obtain i where
      "i < length xs" "xs ! i = x" "update_found P y xs = xs[i := y]" by blast
    with False show ?thesis by (intro exI [of _ "Suc i"]) simp
  qed
qed

lemma invoice_restore: "(a::Invoice)\<lparr>status := status a, items := items a\<rparr> = a"
  by simp

lemma item_restore: "(x::InvoiceItem)\<lparr>return_status := return_status x\<rparr> = x"
  by simp

text \<open>
  C9. Whatever the outcome of \<^verbatim>\<open>invoices_process_return\<close>, the products, the settings
  and the invoice counter are unchanged and the store holds the same invoices in the
  same order. For each stored invoice, \<^verbatim>\<open>current_hash\<close>, \<^verbatim>\<open>previous_hash\<close> and every
  field other than \<^verbatim>\<open>status\<close> and \<^verbatim>\<open>items\<close> are unchanged; it has the same lines, each
  unchanged except possibly for \<^verbatim>\<open>return_status\<close>, and a line that was not requested is
  unchanged altogether. An invoice with another number is unchanged altogether, and a
  failed call changes nothing.
\<close>

theorem process_return_frame:
  "(let s' = fst (invoices_process_return n ids s)
    in sampleProducts s' = sampleProducts s \<and> mockSettings s' = mockSettings s
       \<and> invoiceCounter s' = invoiceCounter s
       \<and> length (sampleInvoices s') = length (sampleInvoices s)
       \<and> (\<not> success (snd (invoices_process_return n ids s)) \<longrightarrow> s' = s)
       \<and> (\<forall>k < length (sampleInvoices s).
            (let a = sampleInvoices s ! k; b = sampleInvoices s' ! k
             in current_hash b = current_hash a \<and> previous_hash b = previous_hash a
                \<and> b\<lparr>status := status a, items := items a\<rparr> = a
                \<and> length (items b) = length (items a)
                \<and> (\<forall>j < length (items a).
                      (items b ! j)\<lparr>return_status := return_status (items a ! j)\<rparr> = items a ! j
                      \<and> (\<not> includes_id ids (item_id (items a ! j)) \<longrightarrow> items b ! j = items a ! j))
                \<and> (invoice_number a \<noteq> n \<longrightarrow> b = a))))"
proof (cases "find (\<lambda>i. invoice_number i = n) (sampleInvoices s)")
  case None
  then have same: "fst (invoices_process_return n ids s) = s"
    by (simp add: invoices_process_return_def)
  show ?thesis
    unfolding Let_def same
    by (intro conjI allI impI) (simp_all only: invoice_restore item_restore)
next
  case (Some invoice)
  let ?mark = "\<lambda>it. if includes_id ids (item_id it) then it\<lparr>return_status := rs_returned\<rparr> else it"
  let ?st = "if list_all (\<lambda>i. return_status i = rs_returned) (map ?mark (items invoice))
             then returned else partial_return"
  let ?new = "invoice\<lparr>items := map ?mark (items invoice), status := ?st\<rparr>"
  from update_found_find [OF Some, of ?new] obtain i where i:
    "i < length (sampleInvoices s)" "sampleInvoices s ! i = invoice"
    "update_found (\<lambda>i. invoice_number i = n) ?new (sampleInvoices s) = (sampleInvoices s)[i := ?new]"
    by blast
  have n: "invoice_number invoice = n"
    using Some by (auto simp: find_Some_iff)
  let ?s' = "fst (invoices_process_return n ids s)"
  have s': "?s' = s\<lparr>sampleInvoices := (sampleInvoices s)[i := ?new]\<rparr>"
    using Some i(3) by (simp add: invoices_process_return_def return_loop_eq Let_def)
  have ok: "success (snd (invoices_process_return n ids s))"
    using Some by (simp add: invoices_process_return_def return_loop_eq Let_def)
  have st: "sampleProducts ?s' = sampleProducts s" "mockSettings ?s' = mockSettings s"
    "invoiceCounter ?s' = invoiceCounter s"
    "length (sampleInvoices ?s') = length (sampleInvoices s)"
    "sampleInvoices ?s' = (sampleInvoices s)[i := ?new]"
    by (simp_all add: s')
  have each: "\<forall>k < length (sampleInvoices s).
     current_hash (sampleInvoices ?s' ! k) = current_hash (sampleInvoices s ! k)
     \<and> previous_hash (sampleInvoices ?s' ! k) = previous_hash (sampleInvoices s ! k)
     \<and> (sampleInvoices ?s' ! k)\<lparr>status := status (sampleInvoices s ! k),
                                  items := items (sampleInvoices s ! k)\<rparr> = sampleInvoices s ! k
     \<and> length (items (sampleInvoices ?s' ! k)) = length (items (sampleInvoices s ! k))
     \<and> (\<forall>j < length (items (sampleInvoices s ! k)).
           (items (sampleInvoices ?s' ! k) ! j)
              \<lparr>return_status := return_status (items (sampleInvoices s ! k) ! j)\<rparr>
             = items (sampleInvoices s ! k) ! j
           \<and> (\<not> includes_id ids (item_id (items (sampleInvoices s ! k) ! j))
                \<longrightarrow> items (sampleInvoices ?s' ! k) ! j = items (sampleInvoices s ! k) ! j))
     \<and> (invoice_number (sampleInvoices s ! k) \<noteq> n \<longrightarrow> sampleInvoices ?s' ! k = sampleInvoices s ! k)"
  proof (intro allI impI)
    fix k assume k: "k < length (sampleInvoices s)"
    show "current_hash (sampleInvoices ?s' ! k) = current_hash (sampleInvoices s ! k)
     \<and> previous_hash (sampleInvoices ?s' ! k) = previous_hash (sampleInvoices s ! k)
     \<and> (sampleInvoices ?s' ! k)\<lparr>status := status (sampleInvoices s ! k),
                                  items := items (sampleInvoices s ! k)\<rparr> = sampleInvoices s ! k
     \<and> length (items (sampleInvoices ?s' ! k)) = length (items (sampleInvoices s ! k))
     \<and> (\<forall>j < length (items (sampleInvoices s ! k)).
           (items (sampleInvoices ?s' ! k) ! j)
              \<lparr>return_status := return_status (items (sampleInvoices s ! k) ! j)\<rparr>
             = items (sampleInvoices s ! k) ! j
           \<and> (\<not> includes_id ids (item_id (items (sampleInvoices s ! k) ! j))
                \<longrightarrow> items (sampleInvoices ?s' ! k) ! j = items (sampleInvoices s ! k) ! j))
     \<and> (invoice_number (sampleInvoices s ! k) \<noteq> n \<longrightarrow> sampleInvoices ?s' ! k = sampleInvoices s ! k)"
    proof (cases "k = i")
      case True
      have b: "sampleInvoices ?s' ! k = ?new" and a: "sampleInvoices s ! k = invoice"
        using True i(1,2) by (simp_all add: st(5))
      show ?thesis
        unfolding a b by (simp add: n)
    next
      case False
      then have c: "sampleInvoices ?s' ! k = sampleInvoices s ! k"
        by (simp add: st(5))
      show ?thesis
        unfolding c by simp
    qed
  qed
  have unchanged_on_failure: "\<not> success (snd (invoices_process_return n ids s)) \<longrightarrow> ?s' = s"
    using ok by blast
  show ?thesis
    unfolding Let_def
    by (intro conjI) (rule st(1) st(2) st(3) st(4) unchanged_on_failure each)+
qed


theorem process_return_frame_witness:
  "(let s' = fst (invoices_process_return ''INV-2024-0001'' [1] init_state)
    in (0::nat) < length (sampleInvoices init_state)
       \<and> success (snd (invoices_process_return ''INV-2024-0001'' [1] init_state))
       \<and> current_hash (sampleInvoices s' ! 0) = ''a1b2c3d4e5f6g7h8''
       \<and> previous_hash (sampleInvoices s' ! 0) = previous_hash (sampleInvoices init_state ! 0)
       \<and> (1::nat) < length (items (sampleInvoices init_state ! 0))
       \<and> \<not> includes_id [1] (item_id (items (sampleInvoices init_state ! 0) ! 1))
       \<and> items (sampleInvoices s' ! 0) ! 1 = items (sampleInvoices init_state ! 0) ! 1
       \<and> return_status (items (sampleInvoices s' ! 0) ! 0) = rs_returned)
   \<and> \<not> success (snd (invoices_process_return ''INV-2024-0009'' [1] init_state))
   \<and> fst (invoices_process_return ''INV-2024-0009'' [1] init_state) = init_state
   \<and> invoice_number (sampleInvoices init_state ! 0) \<noteq> ''INV-2024-0009''
   \<and> sampleInvoices (fst (invoices_process_return ''INV-2024-0009'' [1] init_state)) ! 0
       = sampleInvoices init_state ! 0"
proof -
  have a: "(0::nat) < length (sampleInvoices init_state)"
    "(1::nat) < length (items (sampleInvoices init_state ! 0))"
    "\<not> includes_id [1] (item_id (items (sampleInvoices init_state ! 0) ! 1))"
    "current_hash (sampleInvoices init_state ! 0) = ''a1b2c3d4e5f6g7h8''"
    "invoice_number (sampleInvoices init_state ! 0) \<noteq> ''INV-2024-0009''"
    by (simp_all add: init_state_def init_sampleInvoices_def includes_id_simps)
  have b: "return_status (items (sampleInvoices
             (fst (invoices_process_return ''INV-2024-0001'' [1] init_state)) ! 0) ! 0) = rs_returned"
    "success (snd (invoices_process_return ''INV-2024-0001'' [1] init_state))"
    unfolding invoices_process_return_def
    by (simp_all add: init_state_def init_sampleInvoices_def return_loop_eq includes_id_simps)
  have c: "\<not> success (snd (invoices_process_return ''INV-2024-0009'' [1] init_state))"
    unfolding invoices_process_return_def
    by (simp add: init_state_def init_sampleInvoices_def)
  let ?s' = "fst (invoices_process_return ''INV-2024-0001'' [1] init_state)"
  let ?t' = "fst (invoices_process_return ''INV-2024-0009'' [1] init_state)"
  note fr = process_return_frame [of "''INV-2024-0001''" "[1]" init_state, unfolded Let_def]
  note fr9 = process_return_frame [of "''INV-2024-0009''" "[1]" init_state, unfolded Let_def]
  from fr a(1) have k0:
    "current_hash (sampleInvoices ?s' ! 0) = current_hash (sampleInvoices init_state ! 0)"
    "previous_hash (sampleInvoices ?s' ! 0) = previous_hash (sampleInvoices init_state ! 0)"
    "\<forall>j < length (items (sampleInvoices init_state ! 0)).
        (\<not> includes_id [1] (item_id (items (sampleInvoices init_state ! 0) ! j))
           \<longrightarrow> items (sampleInvoices ?s' ! 0) ! j = items (sampleInvoices init_state ! 0) ! j)"
    by blast+
  from k0(3) a(2,3) have k1:
    "items (sampleInvoices ?s' ! 0) ! 1 = items (sampleInvoices init_state ! 0) ! 1"
    by blast
  from fr9 c have same: "?t' = init_state"
    by blast
  from fr9 a(1) a(5) have other: "sampleInvoices ?t' ! 0 = sampleInvoices init_state ! 0"
    by blast
  from k1 k0(1,2) a b c same other show ?thesis
    unfolding Let_def by (simp only:) simp
qed

section \<open>The cart\<close>

lemma findIndex_Some:
  "findIndex P xs = Some i \<Longrightarrow> i < length xs \<and> P (xs ! i) \<and> (\<forall>j<i. \<not> P (xs ! j))"
proof (induction xs arbitrary: i)
  case Nil
  then show ?case by simp
next
  case (Cons a xs)
  show ?case
  proof (cases "P a")
    case True
    with Cons.prems show ?thesis by simp
  next
    case False
    with Cons.prems obtain i' where i': "findIndex P xs = Some i'" "i = Suc i'"
      by auto
    from Cons.IH [OF i'(1)] False i'(2) show ?thesis
      by (auto simp: nth_Cons split: nat.splits)
  qed
qed

lemma findIndex_None: "findIndex P xs = None \<Longrightarrow> \<forall>x \<in> set xs. \<not> P x"
  by (induction xs) (auto split: if_splits)

lemma addItem_existing:
  assumes "findIndex (\<lambda>item. p_id (product item) = p_id prd) its = Some i"
  shows "map (\<lambda>item. p_id (product item)) (addItem prd q its) = map (\<lambda>item. p_id (product item)) its"
proof -
  from findIndex_Some [OF assms] have "i < length its" by simp
  then show ?thesis
    using assms
    by (simp add: addItem_def Let_def map_update list_update_same_conv)
qed

lemma addItem_new:
  assumes "findIndex (\<lambda>item. p_id (product item) = p_id prd) its = None"
  shows "map (\<lambda>item. p_id (product item)) (addItem prd q its)
           = map (\<lambda>item. p_id (product item)) its @ [p_id prd]"
    and "p_id prd \<notin> set (map (\<lambda>item. p_id (product item)) its)"
  using assms findIndex_None [OF assms] by (auto simp: addItem_def Let_def)

lemma distinct_addItem:
  assumes "distinct (map (\<lambda>item. p_id (product item)) its)"
  shows "distinct (map (\<lambda>item. p_id (product item)) (addItem prd q its))"
proof (cases "findIndex (\<lambda>item. p_id (product item) = p_id prd) its")
  case None
  from addItem_new(1) [OF None, of q] addItem_new(2) [OF None] assms show ?thesis
    by (simp only: distinct_append distinct_singleton) simp
next
  case (Some i)
  from addItem_existing [OF Some, of q] assms show ?thesis
    by (simp only:)
qed

lemma distinct_removeItem:
  "distinct (map (\<lambda>item. p_id (product item)) its)
     \<Longrightarrow> distinct (map (\<lambda>item. p_id (product item)) (removeItem pid its))"
  by (simp add: removeItem_def distinct_map_filter)

lemma distinct_updateQuantity:
  assumes "distinct (map (\<lambda>item. p_id (product item)) its)"
  shows "distinct (map (\<lambda>item. p_id (product item)) (updateQuantity pid qty its))"
proof (cases "js_le_zero qty")
  case True
  with assms show ?thesis
    by (simp add: updateQuantity_def distinct_removeItem)
next
  case False
  have "map (\<lambda>item. p_id (product item)) (updateQuantity pid qty its)
        = map (\<lambda>item. p_id (product item)) its"
    using False by (induction its) (simp_all add: updateQuantity_def)
  with assms show ?thesis
    by (simp only:)
qed

lemma cart_reachable_distinct:
  "cart_reachable its \<Longrightarrow> distinct (map (\<lambda>item. p_id (product item)) its)"
proof (induction rule: cart_reachable.induct)
  case cart_init
  show ?case by simp
next
  case (cart_add its prd q)
  from cart_add.IH show ?case by (rule distinct_addItem)
next
  case (cart_remove its pid)
  from cart_remove.IH show ?case by (rule distinct_removeItem)
next
  case (cart_update its pid qty)
  from cart_update.IH show ?case by (rule distinct_updateQuantity)
next
  case (cart_clear its)
  show ?case by (simp add: clearCart_def)
qed

text \<open>
  C10. In every cart state the store's actions can reach, no two entries have the same
  product id. \<^verbatim>\<open>addItem\<close> with a product whose id is already at some entry leaves
  every other entry as it is and adds the quantity to that entry, so the cart keeps its
  length; with a product not in the cart it appends one entry. The results of
  \<^verbatim>\<open>addItem\<close>, \<^verbatim>\<open>removeItem\<close>, \<^verbatim>\<open>updateQuantity\<close> and \<^verbatim>\<open>clearCart\<close> again have no
  two entries with the same product id.
\<close>

theorem cart_has_no_duplicate_products:
  assumes "cart_reachable its"
  shows "distinct (map (\<lambda>item. p_id (product item)) its)
     \<and> (\<forall>i < length its. p_id (product (its ! i)) = p_id prd \<longrightarrow>
           addItem prd q its
             = its[i := (its ! i)\<lparr>cart_quantity :=
                           js_add (cart_quantity (its ! i))
                             (case q of None \<Rightarrow> Fin 1 | Some v \<Rightarrow> v)\<rparr>])
     \<and> ((\<forall>item \<in> set its. p_id (product item) \<noteq> p_id prd) \<longrightarrow>
           addItem prd q its
             = its @ [\<lparr>product = prd,
                       cart_quantity = (case q of None \<Rightarrow> Fin 1 | Some v \<Rightarrow> v)\<rparr>])
     \<and> distinct (map (\<lambda>item. p_id (product item)) (addItem prd q its))
     \<and> distinct (map (\<lambda>item. p_id (product item)) (removeItem pid its))
     \<and> distinct (map (\<lambda>item. p_id (product item)) (updateQuantity pid qty its))
     \<and> distinct (map (\<lambda>item. p_id (product item)) (clearCart its))"
proof -
  have d: "distinct (map (\<lambda>item. p_id (product item)) its)"
    using assms by (rule cart_reachable_distinct)
  have ex: "addItem prd q its
             = its[i := (its ! i)\<lparr>cart_quantity :=
                           js_add (cart_quantity (its ! i))
                             (case q of None \<Rightarrow> Fin 1 | Some v \<Rightarrow> v)\<rparr>]"
    if i: "i < length its" "p_id (product (its ! i)) = p_id prd" for i
  proof (cases "findIndex (\<lambda>item. p_id (product item) = p_id prd) its")
    case None
    from findIndex_None [OF this] i show ?thesis
      by (metis nth_mem)
  next
    case (Some k)
    from findIndex_Some [OF this] have k: "k < length its" "p_id (product (its ! k)) = p_id prd"
      by simp_all
    have "map (\<lambda>item. p_id (product item)) its ! k = map (\<lambda>item. p_id (product item)) its ! i"
      using i k by simp
    then have "k = i"
      using nth_eq_iff_index_eq [OF d, of k i] i k by simp
    with Some show ?thesis by (simp add: addItem_def Let_def)
  qed
  have new: "addItem prd q its
             = its @ [\<lparr>product = prd,
                       cart_quantity = (case q of None \<Rightarrow> Fin 1 | Some v \<Rightarrow> v)\<rparr>]"
    if "\<forall>item \<in> set its. p_id (product item) \<noteq> p_id prd"
  proof (cases "findIndex (\<lambda>item. p_id (product item) = p_id prd) its")
    case None
    then show ?thesis by (simp add: addItem_def Let_def)
  next
    case (Some k)
    from findIndex_Some [OF this] that show ?thesis
      by (metis nth_mem)
  qed
  show ?thesis
    using d ex new distinct_addItem [OF d] distinct_removeItem [OF d]
      distinct_updateQuantity [OF d]
    by (simp add: clearCart_def)
qed

theorem cart_has_no_duplicate_products_witness:
  "cart_reachable (addItem (hd init_sampleProducts) None [])
   \<and> addItem (hd init_sampleProducts) None []
       = [\<lparr>product = hd init_sampleProducts, cart_quantity = Fin 1\<rparr>]
   \<and> addItem (hd init_sampleProducts) (Some (Fin 2)) (addItem (hd init_sampleProducts) None [])
       = [\<lparr>product = hd init_sampleProducts, cart_quantity = Fin 3\<rparr>]
   \<and> map (\<lambda>item. p_id (product item)) (addItem (hd init_sampleProducts) None []) = [''PROD001'']
   \<and> p_id (init_sampleProducts ! 1) = ''PROD002''
   \<and> addItem (init_sampleProducts ! 1) None (addItem (hd init_sampleProducts) None [])
       = [\<lparr>product = hd init_sampleProducts, cart_quantity = Fin 1\<rparr>,
          \<lparr>product = init_sampleProducts ! 1, cart_quantity = Fin 1\<rparr>]"
proof -
  have r: "cart_reachable (addItem (hd init_sampleProducts) None [])"
    by (intro cart_add cart_init)
  have c: "addItem (hd init_sampleProducts) None []
             = [\<lparr>product = hd init_sampleProducts, cart_quantity = Fin 1\<rparr>]"
    by (simp add: addItem_def)
  have three: "js_add (Fin 1) (Fin 2) = Fin 3"
    by (simp add: js_eval fl_eval)
  have n: "p_id (hd init_sampleProducts) = ''PROD001''" "p_id (init_sampleProducts ! 1) = ''PROD002''"
    by (simp_all add: init_sampleProducts_def mk_product_def)
  from cart_has_no_duplicate_products [OF r, of "hd init_sampleProducts" "Some (Fin 2)"]
       cart_has_no_duplicate_products [OF r, of "init_sampleProducts ! 1" None]
       r n
  show ?thesis
    by (simp add: c three)
qed

end
